theory Spec2Isabelle
  imports Main
begin

section \<open>JavaScript values used by the handlers\<close>

text \<open>
  Header values, JSON body fields and environment variables are strings or absent:
  \<open>None\<close> stands for \<open>undefined\<close>. A \<open>char\<close> stands for one code unit of the
  JavaScript string, so \<open>length\<close> is \<open>.length\<close>. The operator \<open>!v\<close> holds for
  \<open>undefined\<close> and for the empty string.
\<close>

definition falsy :: "string option \<Rightarrow> bool" where
  "falsy v = (case v of None \<Rightarrow> True | Some s \<Rightarrow> s = [])"

definition str_of :: "string option \<Rightarrow> string" where
  "str_of v = (case v of None \<Rightarrow> [] | Some s \<Rightarrow> s)"

text \<open>\<open>xs[i]\<close> on an array: \<open>undefined\<close> beyond the end.\<close>

fun js_index :: "'a list \<Rightarrow> nat \<Rightarrow> 'a option" where
  "js_index [] i = None"
| "js_index (x # xs) 0 = Some x"
| "js_index (x # xs) (Suc i) = js_index xs i"

text \<open>\<open>s.split(c)\<close> for a one-character separator: never the empty array.\<close>

fun js_split :: "char \<Rightarrow> string \<Rightarrow> string list" where
  "js_split c [] = [[]]"
| "js_split c (x # xs) =
     (if x = c then [] # js_split c xs
      else (case js_split c xs of
              [] \<Rightarrow> [[x]]
            | y # ys \<Rightarrow> (x # y) # ys))"

abbreviation apostrophe :: char where "apostrophe \<equiv> CHR 0x27"
abbreviation dquote :: char where "dquote \<equiv> CHR 0x22"
abbreviation a_grave :: char where "a_grave \<equiv> CHR 0xE0"
abbreviation e_grave :: char where "e_grave \<equiv> CHR 0xE8"
abbreviation e_acute :: char where "e_acute \<equiv> CHR 0xE9"
abbreviation o_circ :: char where "o_circ \<equiv> CHR 0xF4"

section \<open>Data model\<close>

text \<open>A row of the \<open>users\<close> table, with the columns the handlers read and write.\<close>

record user =
  user_id :: int
  username :: string
  email :: string
  password_hash :: string
  role :: string
  reset_token :: "string option"
  reset_token_expiry :: "int option"
  updated_at :: int

text \<open>The payload \<open>generateToken\<close> signs, and the claims \<open>jwt.verify\<close> decodes
  (the payload with the issued-at and expiry times the library adds, in seconds).\<close>

record payload =
  p_id :: int
  p_username :: string
  p_email :: string
  p_role :: string

record claims =
  c_id :: int
  c_username :: string
  c_email :: string
  c_role :: string
  c_iat :: int
  c_exp :: int

text \<open>The outcomes of \<open>jwt.verify\<close>: the decoded claims, or one of the errors the
  library throws, told apart by \<open>error.name\<close>.\<close>

datatype verify_result =
  Decoded claims
| TokenExpiredError
| JsonWebTokenError
| NotBeforeError

text \<open>The user object of a response body (no hash) and an e-mail handed to the transporter.\<close>

record public_user =
  pu_id :: int
  pu_username :: string
  pu_email :: string
  pu_role :: string

record mail =
  mail_to :: string
  mail_username :: string
  mail_reset_url :: string

datatype json =
  ErrorBody string
| MessageBody string
| AuthBody public_user string
| RowBody public_user int

record response =
  status :: nat
  body :: json

definition reply :: "nat \<Rightarrow> json \<Rightarrow> response" where
  "reply s b = \<lparr>status = s, body = b\<rparr>"

record request =
  authorization :: "string option"
  req_user :: "claims option"

text \<open>A middleware either answers the request itself or calls \<open>next()\<close> with the
  request it may have updated.\<close>

datatype middleware_result = Reject response | Next request

text \<open>
  Everything a handler takes from outside the repository: the process environment, the
  clock (milliseconds), and the functions of jsonwebtoken, bcrypt, crypto, nodemailer
  and the database driver that it calls. \<open>jwt_sign\<close> and \<open>jwt_verify\<close> also take the
  clock in seconds, which the library reads itself; \<open>jwt_sign\<close> is \<open>None\<close> when the
  library throws (a timespan it cannot read). \<open>random_hex\<close> is the value of
  \<open>crypto.randomBytes(32).toString('hex')\<close> drawn by this request, \<open>send_mail\<close>
  tells whether \<open>transporter.sendMail\<close> resolves, and \<open>pg_int\<close> is the server's
  reading of a text parameter compared with the integer column \<open>id\<close>
  (\<open>None\<close>: invalid input syntax, the query throws).
\<close>

record env =
  DATABASE_URL :: "string option"
  JWT_SECRET :: "string option"
  JWT_EXPIRES_IN :: "string option"
  FRONTEND_URL :: "string option"
  now_ms :: int
  jwt_sign :: "payload \<Rightarrow> string \<Rightarrow> string \<Rightarrow> int \<Rightarrow> string option"
  jwt_verify :: "string \<Rightarrow> string \<Rightarrow> int \<Rightarrow> verify_result"
  bcrypt_hash :: "string \<Rightarrow> nat \<Rightarrow> string"
  bcrypt_compare :: "string \<Rightarrow> string \<Rightarrow> bool"
  sha256_hex :: "string \<Rightarrow> string"
  random_hex :: string
  send_mail :: "mail \<Rightarrow> bool"
  pg_int :: "string \<Rightarrow> int option"

definition now_s :: "env \<Rightarrow> int" where
  "now_s e = now_ms e div 1000"

section \<open>Server start-up\<close>

text \<open>
  The entry point leaves with \<open>process.exit(1)\<close> when \<open>DATABASE_URL\<close> or
  \<open>JWT_SECRET\<close> is not set, before any route is mounted: a request is only ever
  handled in an environment that passed both checks.
\<close>

datatype startup = Exit nat | Listening

definition verify_environment :: "env \<Rightarrow> startup" where
  "verify_environment e =
     (if falsy (DATABASE_URL e) then Exit 1
      else if falsy (JWT_SECRET e) then Exit 1
      else Listening)"

section \<open>Authentication middleware\<close>

definition bearer_token :: "string option \<Rightarrow> string option" where
  "bearer_token authHeader =
     (if falsy authHeader then authHeader
      else js_index (js_split CHR '' '' (str_of authHeader)) 1)"

text \<open>The header a client sends for a token: \<^verbatim>\<open>Authorization: Bearer <token>\<close>.\<close>

definition bearer :: "string \<Rightarrow> string" where
  "bearer token = ''Bearer '' @ token"

definition authenticateToken :: "env \<Rightarrow> request \<Rightarrow> middleware_result" where
  "authenticateToken e req =
     (let token = bearer_token (authorization req) in
      if falsy token then Reject (reply 401 (ErrorBody ''Authentication required''))
      else if falsy (JWT_SECRET e) then
        Reject (reply 500 (ErrorBody ''Server configuration error''))
      else
        (case jwt_verify e (str_of token) (str_of (JWT_SECRET e)) (now_s e) of
           Decoded decoded \<Rightarrow> Next (req\<lparr>req_user := Some decoded\<rparr>)
         | TokenExpiredError \<Rightarrow> Reject (reply 401 (ErrorBody ''Token expired''))
         | JsonWebTokenError \<Rightarrow> Reject (reply 403 (ErrorBody ''Invalid token''))
         | NotBeforeError \<Rightarrow> Reject (reply 403 (ErrorBody ''Invalid token''))))"

definition requireAdmin :: "request \<Rightarrow> middleware_result" where
  "requireAdmin req =
     (case req_user req of
        None \<Rightarrow> Reject (reply 401 (ErrorBody ''Authentication required''))
      | Some u \<Rightarrow>
          if c_role u \<noteq> ''admin'' then Reject (reply 403 (ErrorBody ''Admin access required''))
          else Next req)"

definition generateToken :: "env \<Rightarrow> user \<Rightarrow> string option" where
  "generateToken e u =
     (if falsy (JWT_SECRET e) then None
      else
        (let payload = \<lparr>p_id = user_id u, p_username = username u,
                        p_email = email u, p_role = role u\<rparr>;
             expiresIn = (if falsy (JWT_EXPIRES_IN e) then ''7d'' else str_of (JWT_EXPIRES_IN e))
         in jwt_sign e payload (str_of (JWT_SECRET e)) expiresIn (now_s e)))"

subsection \<open>The state machine of the specification\<close>

text \<open>
  The five transitions as the specification lists them, over the header of the request
  and the outcome of verifying the token under the configured secret.
\<close>

datatype auth_state =
  NoHeader
| TokenMissingAfterSplit
| VerifyFailsExpired
| VerifyFailsInvalid
| VerifyOk claims

definition spec_auth_state :: "env \<Rightarrow> request \<Rightarrow> auth_state" where
  "spec_auth_state e req =
     (case authorization req of
        None \<Rightarrow> NoHeader
      | Some h \<Rightarrow>
          (case js_index (js_split CHR '' '' h) 1 of
             None \<Rightarrow> TokenMissingAfterSplit
           | Some t \<Rightarrow>
               if t = [] then TokenMissingAfterSplit
               else
                 (case jwt_verify e t (str_of (JWT_SECRET e)) (now_s e) of
                    Decoded c \<Rightarrow> VerifyOk c
                  | TokenExpiredError \<Rightarrow> VerifyFailsExpired
                  | _ \<Rightarrow> VerifyFailsInvalid)))"

fun spec_transition :: "auth_state \<Rightarrow> request \<Rightarrow> middleware_result" where
  "spec_transition NoHeader req = Reject (reply 401 (ErrorBody ''Authentication required''))"
| "spec_transition TokenMissingAfterSplit req =
     Reject (reply 401 (ErrorBody ''Authentication required''))"
| "spec_transition VerifyFailsExpired req = Reject (reply 401 (ErrorBody ''Token expired''))"
| "spec_transition VerifyFailsInvalid req = Reject (reply 403 (ErrorBody ''Invalid token''))"
| "spec_transition (VerifyOk c) req = Next (req\<lparr>req_user := Some c\<rparr>)"

section \<open>Letter case, the e-mail pattern and \<open>parseInt\<close>\<close>

definition code :: "char \<Rightarrow> nat" where
  "code c = of_char c"

definition is_upper :: "char \<Rightarrow> bool" where
  "is_upper c = (65 \<le> code c \<and> code c \<le> 90)"

definition is_lower :: "char \<Rightarrow> bool" where
  "is_lower c = (97 \<le> code c \<and> code c \<le> 122)"

definition is_digit :: "char \<Rightarrow> bool" where
  "is_digit c = (48 \<le> code c \<and> code c \<le> 57)"

text \<open>SQL \<open>LOWER\<close>, on the letters A to Z.\<close>

definition lower_char :: "char \<Rightarrow> char" where
  "lower_char c =
     (case map_of (zip ''ABCDEFGHIJKLMNOPQRSTUVWXYZ'' ''abcdefghijklmnopqrstuvwxyz'') c of
        None \<Rightarrow> c
      | Some l \<Rightarrow> l)"

definition LOWER :: "string \<Rightarrow> string" where
  "LOWER s = map lower_char s"

text \<open>
  Regular expressions with character classes, matched by derivatives. \<open>regex_test\<close>
  is \<open>RegExp.prototype.test\<close> for a pattern anchored by \<open>^\<close> and \<open>$\<close>: the whole
  string has to match.
\<close>

datatype regex =
  Never
| Empty
| Class "char \<Rightarrow> bool"
| Then regex regex
| Either regex regex
| Many regex

fun nullable :: "regex \<Rightarrow> bool" where
  "nullable Never = False"
| "nullable Empty = True"
| "nullable (Class P) = False"
| "nullable (Then r s) = (nullable r \<and> nullable s)"
| "nullable (Either r s) = (nullable r \<or> nullable s)"
| "nullable (Many r) = True"

fun deriv :: "char \<Rightarrow> regex \<Rightarrow> regex" where
  "deriv c Never = Never"
| "deriv c Empty = Never"
| "deriv c (Class P) = (if P c then Empty else Never)"
| "deriv c (Then r s) =
     (if nullable r then Either (Then (deriv c r) s) (deriv c s) else Then (deriv c r) s)"
| "deriv c (Either r s) = Either (deriv c r) (deriv c s)"
| "deriv c (Many r) = Then (deriv c r) (Many r)"

fun derivs :: "regex \<Rightarrow> string \<Rightarrow> regex" where
  "derivs r [] = r"
| "derivs r (c # cs) = derivs (deriv c r) cs"

definition regex_test :: "regex \<Rightarrow> string \<Rightarrow> bool" where
  "regex_test r s = nullable (derivs r s)"

definition one_or_more :: "regex \<Rightarrow> regex" where
  "one_or_more r = Then r (Many r)"

definition two_or_more :: "regex \<Rightarrow> regex" where
  "two_or_more r = Then r (Then r (Many r))"

definition local_class :: "char \<Rightarrow> bool" where
  "local_class c = (is_upper c \<or> is_lower c \<or> is_digit c \<or> c \<in> set ''._%+-'')"

definition domain_class :: "char \<Rightarrow> bool" where
  "domain_class c = (is_upper c \<or> is_lower c \<or> is_digit c \<or> c \<in> set ''.-'')"

definition letter_class :: "char \<Rightarrow> bool" where
  "letter_class c = (is_upper c \<or> is_lower c)"

definition is_char :: "char \<Rightarrow> char \<Rightarrow> bool" where
  "is_char a c = (c = a)"

text \<open>\<^verbatim>\<open>/^[A-Za-z0-9._%+-]+@[A-Za-z0-9.-]+\.[A-Za-z]{2,}$/\<close>\<close>

definition emailRegex :: regex where
  "emailRegex =
     Then (one_or_more (Class local_class))
       (Then (Class (is_char CHR ''@''))
         (Then (one_or_more (Class domain_class))
           (Then (Class (is_char CHR ''.''))
             (two_or_more (Class letter_class)))))"

text \<open>
  \<open>parseInt(s)\<close> with no radix: leading white space is skipped, then an optional sign,
  then an optional \<open>0x\<close> or \<open>0X\<close> that selects radix 16, then the longest run of
  digits of the radix; \<open>NaN\<close> when that run is empty. Numbers are integers here, which
  is exact up to \<open>2^53\<close>.
\<close>

datatype js_number = NaN | Num int

definition is_js_space :: "char \<Rightarrow> bool" where
  "is_js_space c = (code c \<in> {9, 10, 11, 12, 13, 32, 160})"

definition digit_of :: "char \<Rightarrow> nat option" where
  "digit_of c =
     (if is_digit c then Some (code c - 48)
      else if is_lower c then Some (code c - 87)
      else if is_upper c then Some (code c - 55)
      else None)"

definition in_radix :: "nat \<Rightarrow> char \<Rightarrow> bool" where
  "in_radix R c = (case digit_of c of None \<Rightarrow> False | Some v \<Rightarrow> v < R)"

fun digits_value :: "nat \<Rightarrow> nat \<Rightarrow> string \<Rightarrow> nat" where
  "digits_value R acc [] = acc"
| "digits_value R acc (c # cs) =
     digits_value R (acc * R + (case digit_of c of None \<Rightarrow> 0 | Some v \<Rightarrow> v)) cs"

definition parseInt :: "string \<Rightarrow> js_number" where
  "parseInt s =
     (let s1 = dropWhile is_js_space s;
          negative = (case s1 of [] \<Rightarrow> False | c # _ \<Rightarrow> c = CHR ''-'');
          s2 = (case s1 of [] \<Rightarrow> s1
                | c # r \<Rightarrow> if c = CHR ''-'' \<or> c = CHR ''+'' then r else s1);
          hex = (case s2 of a # b # _ \<Rightarrow> a = CHR ''0'' \<and> (b = CHR ''x'' \<or> b = CHR ''X'')
                 | _ \<Rightarrow> False);
          R = (if hex then 16 else 10);
          ds = takeWhile (in_radix R) (if hex then drop 2 s2 else s2)
      in if ds = [] then NaN
         else Num ((if negative then - 1 else 1) * int (digits_value R 0 ds)))"

text \<open>\<open>x === k\<close> for the result of \<open>parseInt\<close> and a number \<open>k\<close>.\<close>

fun strict_eq :: "js_number \<Rightarrow> int \<Rightarrow> bool" where
  "strict_eq NaN k = False"
| "strict_eq (Num v) k = (v = k)"

section \<open>The connection pool and the \<open>users\<close> table\<close>

text \<open>
  The state of the database as the handlers see it: whether \<open>pool.query\<close> reaches
  the server at all, the rows of \<open>users\<close>, and the next value of the id sequence.
  A query that fails rejects, and the handler's \<open>catch\<close> answers 500.
\<close>

record db =
  connected :: bool
  users :: "user list"
  next_id :: int

datatype pg_error = ConnectionError | UniqueViolation | InvalidTextRepresentation

definition pool_query :: "db \<Rightarrow> 'r \<Rightarrow> pg_error + 'r" where
  "pool_query d rows = (if connected d then Inr rows else Inl ConnectionError)"

definition update_where :: "(user \<Rightarrow> bool) \<Rightarrow> (user \<Rightarrow> user) \<Rightarrow> user list \<Rightarrow> user list" where
  "update_where P f us = map (\<lambda>u. if P u then f u else u) us"

text \<open>\<^verbatim>\<open>SELECT id FROM users WHERE LOWER(username) = LOWER($1) OR LOWER(email) = LOWER($2)\<close>\<close>

definition select_existing :: "db \<Rightarrow> string \<Rightarrow> string \<Rightarrow> pg_error + user list" where
  "select_existing d uname mail =
     pool_query d
       (filter (\<lambda>u. LOWER (username u) = LOWER uname \<or> LOWER (email u) = LOWER mail) (users d))"

text \<open>
  Modelled from the spec: the schema of the \<open>users\<close> table is kept in another repository.
  The specification gives a user a unique case-insensitive username and a unique
  case-insensitive e-mail and makes the unique constraint of the persistence layer the
  final authority: the insert is refused with a unique violation (SQLSTATE 23505) when
  a row with the same username or the same e-mail, compared in lower case, is present.
  Otherwise the row is appended with the next id of the sequence.
\<close>

definition violates_unique :: "user list \<Rightarrow> string \<Rightarrow> string \<Rightarrow> bool" where
  "violates_unique us uname mail =
     (\<exists>u \<in> set us. LOWER (username u) = LOWER uname \<or> LOWER (email u) = LOWER mail)"

text \<open>\<^verbatim>\<open>INSERT INTO users (username, email, password_hash, role) VALUES ($1, $2, $3, 'user')
  RETURNING id, username, email, role, created_at\<close>\<close>

definition insert_user :: "env \<Rightarrow> db \<Rightarrow> string \<Rightarrow> string \<Rightarrow> string \<Rightarrow> pg_error + (user \<times> db)" where
  "insert_user e d uname mail hash =
     (if \<not> connected d then Inl ConnectionError
      else if violates_unique (users d) uname mail then Inl UniqueViolation
      else
        (let row = \<lparr>user_id = next_id d, username = uname, email = mail,
                    password_hash = hash, role = ''user'', reset_token = None,
                    reset_token_expiry = None, updated_at = now_ms e\<rparr>
         in Inr (row, d\<lparr>users := users d @ [row], next_id := next_id d + 1\<rparr>)))"

text \<open>\<^verbatim>\<open>SELECT id, username, email, password_hash, role FROM users
  WHERE LOWER(username) = LOWER($1) OR LOWER(email) = LOWER($1)\<close>\<close>

definition select_by_login :: "db \<Rightarrow> string \<Rightarrow> pg_error + user list" where
  "select_by_login d login =
     pool_query d
       (filter (\<lambda>u. LOWER (username u) = LOWER login \<or> LOWER (email u) = LOWER login) (users d))"

text \<open>\<^verbatim>\<open>SELECT password_hash FROM users WHERE id = $1\<close>\<close>

definition select_by_id :: "db \<Rightarrow> int \<Rightarrow> pg_error + user list" where
  "select_by_id d k = pool_query d (filter (\<lambda>u. user_id u = k) (users d))"

text \<open>\<^verbatim>\<open>UPDATE users SET password_hash = $1 WHERE id = $2\<close>\<close>

definition update_password :: "db \<Rightarrow> string \<Rightarrow> int \<Rightarrow> pg_error + db" where
  "update_password d hash k =
     pool_query d
       (d\<lparr>users := update_where (\<lambda>u. user_id u = k) (\<lambda>u. u\<lparr>password_hash := hash\<rparr>) (users d)\<rparr>)"

text \<open>\<^verbatim>\<open>SELECT id, username, email FROM users WHERE LOWER(email) = LOWER($1)\<close>\<close>

definition select_by_email :: "db \<Rightarrow> string \<Rightarrow> pg_error + user list" where
  "select_by_email d mail =
     pool_query d (filter (\<lambda>u. LOWER (email u) = LOWER mail) (users d))"

text \<open>\<^verbatim>\<open>UPDATE users SET reset_token = $1, reset_token_expiry = $2 WHERE id = $3\<close>\<close>

definition update_reset_token :: "db \<Rightarrow> string \<Rightarrow> int \<Rightarrow> int \<Rightarrow> pg_error + db" where
  "update_reset_token d hash expiry k =
     pool_query d
       (d\<lparr>users := update_where (\<lambda>u. user_id u = k)
            (\<lambda>u. u\<lparr>reset_token := Some hash, reset_token_expiry := Some expiry\<rparr>) (users d)\<rparr>)"

text \<open>\<^verbatim>\<open>SELECT id, username FROM users WHERE reset_token = $1 AND reset_token_expiry > NOW()\<close>:
  a comparison with \<open>NULL\<close> is never true.\<close>

definition holds_token :: "string \<Rightarrow> int \<Rightarrow> user \<Rightarrow> bool" where
  "holds_token hash now u =
     (reset_token u = Some hash \<and>
      (case reset_token_expiry u of None \<Rightarrow> False | Some x \<Rightarrow> now < x))"

definition select_by_reset_token :: "env \<Rightarrow> db \<Rightarrow> string \<Rightarrow> pg_error + user list" where
  "select_by_reset_token e d hash =
     pool_query d (filter (holds_token hash (now_ms e)) (users d))"

text \<open>\<^verbatim>\<open>UPDATE users SET password_hash = $1, reset_token = NULL, reset_token_expiry = NULL
  WHERE id = $2\<close>\<close>

definition consume_row :: "string \<Rightarrow> user \<Rightarrow> user" where
  "consume_row hash u = u\<lparr>password_hash := hash, reset_token := None, reset_token_expiry := None\<rparr>"

definition update_consume :: "db \<Rightarrow> string \<Rightarrow> int \<Rightarrow> pg_error + db" where
  "update_consume d hash k =
     pool_query d (d\<lparr>users := update_where (\<lambda>u. user_id u = k) (consume_row hash) (users d)\<rparr>)"

text \<open>The statements of the admin routes take the id as the text of the URL parameter.\<close>

definition with_id_param :: "env \<Rightarrow> db \<Rightarrow> string \<Rightarrow> (int \<Rightarrow> 'r) \<Rightarrow> pg_error + 'r" where
  "with_id_param e d ident q =
     (if \<not> connected d then Inl ConnectionError
      else (case pg_int e ident of
              None \<Rightarrow> Inl InvalidTextRepresentation
            | Some k \<Rightarrow> Inr (q k)))"

definition public :: "user \<Rightarrow> public_user" where
  "public u = \<lparr>pu_id = user_id u, pu_username = username u, pu_email = email u, pu_role = role u\<rparr>"

section \<open>Account routes\<close>

definition BCRYPT_ROUNDS :: nat where
  "BCRYPT_ROUNDS = 10"

record register_body =
  reg_username :: "string option"
  reg_email :: "string option"
  reg_password :: "string option"

definition msg_register_required :: string where
  "msg_register_required =
     ''Nom d'' @ [apostrophe] @ ''utilisateur, email et mot de passe requis''"

definition msg_username_short :: string where
  "msg_username_short =
     ''Le nom d'' @ [apostrophe] @ ''utilisateur doit contenir au moins 3 caract'' @ [e_grave] @ ''res''"

definition msg_password_short :: string where
  "msg_password_short = ''Le mot de passe doit contenir au moins 8 caract'' @ [e_grave] @ ''res''"

definition msg_email_format :: string where
  "msg_email_format = ''Format d'' @ [apostrophe] @ ''email invalide''"

definition msg_conflict :: string where
  "msg_conflict =
     ''Ce nom d'' @ [apostrophe] @ ''utilisateur ou email est d'' @ [e_acute] @ ''j''
       @ [a_grave] @ '' utilis'' @ [e_acute]"

definition msg_register_failed :: string where
  "msg_register_failed = ''Erreur lors de l'' @ [apostrophe] @ ''inscription''"

text \<open>The checks of \<open>POST /auth/register\<close> on the body, in the order of the handler:
  the response of the first one that fails.\<close>

definition register_validation :: "register_body \<Rightarrow> response option" where
  "register_validation b =
     (if falsy (reg_username b) \<or> falsy (reg_email b) \<or> falsy (reg_password b) then
        Some (reply 400 (ErrorBody msg_register_required))
      else if length (str_of (reg_username b)) < 3 then
        Some (reply 400 (ErrorBody msg_username_short))
      else if length (str_of (reg_password b)) < 8 then
        Some (reply 400 (ErrorBody msg_password_short))
      else if \<not> regex_test emailRegex (str_of (reg_email b)) then
        Some (reply 400 (ErrorBody msg_email_format))
      else None)"

text \<open>
  The handler awaits the database twice: the check for an existing user and the insert.
  Other requests run between the two, so the handler is given in two steps:
  \<open>register_check\<close> up to the answer of the first query, \<open>register_insert\<close> from there
  on, in the state the database then has. \<open>register\<close> is the handler with no other
  request in between.
\<close>

definition register_check :: "db \<Rightarrow> register_body \<Rightarrow> response + (string \<times> string \<times> string)" where
  "register_check d b =
     (case register_validation b of
        Some r \<Rightarrow> Inl r
      | None \<Rightarrow>
          (case select_existing d (str_of (reg_username b)) (str_of (reg_email b)) of
             Inl err \<Rightarrow> Inl (reply 500 (ErrorBody msg_register_failed))
           | Inr existingUser \<Rightarrow>
               if length existingUser > 0 then Inl (reply 409 (ErrorBody msg_conflict))
               else Inr (str_of (reg_username b), str_of (reg_email b), str_of (reg_password b))))"

definition register_insert :: "env \<Rightarrow> db \<Rightarrow> string \<times> string \<times> string \<Rightarrow> response \<times> db" where
  "register_insert e d v =
     (case v of (uname, mail, password) \<Rightarrow>
        (let passwordHash = bcrypt_hash e password BCRYPT_ROUNDS in
         case insert_user e d uname mail passwordHash of
           Inl err \<Rightarrow> (reply 500 (ErrorBody msg_register_failed), d)
         | Inr (u, d') \<Rightarrow>
             (case generateToken e u of
                None \<Rightarrow> (reply 500 (ErrorBody msg_register_failed), d')
              | Some token \<Rightarrow> (reply 201 (AuthBody (public u) token), d'))))"

definition register :: "env \<Rightarrow> db \<Rightarrow> register_body \<Rightarrow> response \<times> db" where
  "register e d b =
     (case register_check d b of
        Inl r \<Rightarrow> (r, d)
      | Inr v \<Rightarrow> register_insert e d v)"

record login_body =
  login_login :: "string option"
  login_password :: "string option"

definition msg_bad_credentials :: string where
  "msg_bad_credentials = ''Identifiant ou mot de passe incorrect''"

definition login :: "env \<Rightarrow> db \<Rightarrow> login_body \<Rightarrow> response" where
  "login e d b =
     (if falsy (login_login b) \<or> falsy (login_password b) then
        reply 400 (ErrorBody ''Identifiant et mot de passe requis'')
      else
        (case select_by_login d (str_of (login_login b)) of
           Inl err \<Rightarrow> reply 500 (ErrorBody ''Erreur lors de la connexion'')
         | Inr [] \<Rightarrow> reply 401 (ErrorBody msg_bad_credentials)
         | Inr (u # rest) \<Rightarrow>
             if \<not> bcrypt_compare e (str_of (login_password b)) (password_hash u) then
               reply 401 (ErrorBody msg_bad_credentials)
             else
               (case generateToken e u of
                  None \<Rightarrow> reply 500 (ErrorBody ''Erreur lors de la connexion'')
                | Some token \<Rightarrow> reply 200 (AuthBody (public u) token))))"

record change_body =
  currentPassword :: "string option"
  newPassword :: "string option"

definition msg_new_password_short :: string where
  "msg_new_password_short =
     ''Le nouveau mot de passe doit contenir au moins 8 caract'' @ [e_grave] @ ''res''"

definition msg_not_found :: string where
  "msg_not_found = ''Utilisateur non trouv'' @ [e_acute]"

definition msg_password_changed :: string where
  "msg_password_changed =
     ''Mot de passe modifi'' @ [e_acute] @ '' avec succ'' @ [e_grave] @ ''s''"

definition msg_change_failed :: string where
  "msg_change_failed = ''Erreur lors du changement de mot de passe''"

text \<open>The handler of \<open>POST /auth/change-password\<close>, behind \<open>authenticateToken\<close>. Reading
  \<open>req.user.id\<close> with no \<open>req.user\<close> throws inside the \<open>try\<close>.\<close>

definition change_password :: "env \<Rightarrow> db \<Rightarrow> request \<Rightarrow> change_body \<Rightarrow> response \<times> db" where
  "change_password e d req b =
     (if falsy (currentPassword b) \<or> falsy (newPassword b) then
        (reply 400 (ErrorBody ''Mot de passe actuel et nouveau mot de passe requis''), d)
      else if length (str_of (newPassword b)) < 8 then
        (reply 400 (ErrorBody msg_new_password_short), d)
      else
        (case req_user req of
           None \<Rightarrow> (reply 500 (ErrorBody msg_change_failed), d)
         | Some c \<Rightarrow>
             (case select_by_id d (c_id c) of
                Inl err \<Rightarrow> (reply 500 (ErrorBody msg_change_failed), d)
              | Inr [] \<Rightarrow> (reply 404 (ErrorBody msg_not_found), d)
              | Inr (row # rest) \<Rightarrow>
                  if \<not> bcrypt_compare e (str_of (currentPassword b)) (password_hash row) then
                    (reply 401 (ErrorBody ''Mot de passe actuel incorrect''), d)
                  else
                    (case update_password d
                            (bcrypt_hash e (str_of (newPassword b)) BCRYPT_ROUNDS) (c_id c) of
                       Inl err \<Rightarrow> (reply 500 (ErrorBody msg_change_failed), d)
                     | Inr d' \<Rightarrow>
                         (reply 200 (MessageBody msg_password_changed), d')))))"

definition route_change_password ::
  "env \<Rightarrow> db \<Rightarrow> request \<Rightarrow> change_body \<Rightarrow> response \<times> db" where
  "route_change_password e d req b =
     (case authenticateToken e req of
        Reject r \<Rightarrow> (r, d)
      | Next req' \<Rightarrow> change_password e d req' b)"

definition msg_forgot_generic :: string where
  "msg_forgot_generic =
     ''Si un compte existe avec cet email, un lien de r'' @ [e_acute]
       @ ''initialisation a '' @ [e_acute] @ ''t'' @ [e_acute] @ '' envoy'' @ [e_acute] @ ''.''"

definition msg_mail_failed :: string where
  "msg_mail_failed =
     ''Erreur lors de l'' @ [apostrophe] @ ''envoi de l'' @ [apostrophe] @ ''email''"

text \<open>\<open>POST /auth/forgot-password\<close>. The e-mail is given by its recipient, the user
  name in its text and the link it carries.\<close>

definition forgot_password :: "env \<Rightarrow> db \<Rightarrow> string option \<Rightarrow> response \<times> db" where
  "forgot_password e d mail =
     (if falsy mail then (reply 400 (ErrorBody ''Email requis''), d)
      else
        (case select_by_email d (str_of mail) of
           Inl err \<Rightarrow> (reply 500 (ErrorBody msg_mail_failed), d)
         | Inr [] \<Rightarrow> (reply 200 (MessageBody msg_forgot_generic), d)
         | Inr (u # rest) \<Rightarrow>
             (let resetToken = random_hex e;
                  resetTokenHash = sha256_hex e resetToken;
                  resetTokenExpiry = now_ms e + 60 * 60 * 1000
              in case update_reset_token d resetTokenHash resetTokenExpiry (user_id u) of
                   Inl err \<Rightarrow> (reply 500 (ErrorBody msg_mail_failed), d)
                 | Inr d' \<Rightarrow>
                     (let frontendUrl = (if falsy (FRONTEND_URL e) then ''https://tipsy.francony.fr''
                                         else str_of (FRONTEND_URL e));
                          resetUrl = frontendUrl @ ''/reset-password?token='' @ resetToken
                      in if send_mail e \<lparr>mail_to = email u, mail_username = username u,
                                          mail_reset_url = resetUrl\<rparr>
                         then (reply 200 (MessageBody msg_forgot_generic), d')
                         else (reply 500 (ErrorBody msg_mail_failed), d')))))"

record reset_body =
  reset_token_field :: "string option"
  reset_password_field :: "string option"

definition msg_invalid_or_expired :: string where
  "msg_invalid_or_expired =
     ''Lien invalide ou expir'' @ [e_acute] @ ''. Veuillez faire une nouvelle demande.''"

definition msg_reset_failed :: string where
  "msg_reset_failed =
     ''Erreur lors de la r'' @ [e_acute] @ ''initialisation du mot de passe''"

definition msg_reset_done :: string where
  "msg_reset_done =
     ''Mot de passe r'' @ [e_acute] @ ''initialis'' @ [e_acute]
       @ '' avec succ'' @ [e_grave] @ ''s. Vous pouvez maintenant vous connecter.''"

definition reset_password :: "env \<Rightarrow> db \<Rightarrow> reset_body \<Rightarrow> response \<times> db" where
  "reset_password e d b =
     (if falsy (reset_token_field b) \<or> falsy (reset_password_field b) then
        (reply 400 (ErrorBody ''Token et nouveau mot de passe requis''), d)
      else if length (str_of (reset_password_field b)) < 8 then
        (reply 400 (ErrorBody msg_password_short), d)
      else
        (let tokenHash = sha256_hex e (str_of (reset_token_field b)) in
         case select_by_reset_token e d tokenHash of
           Inl err \<Rightarrow> (reply 500 (ErrorBody msg_reset_failed), d)
         | Inr [] \<Rightarrow> (reply 400 (ErrorBody msg_invalid_or_expired), d)
         | Inr (u # rest) \<Rightarrow>
             (let passwordHash = bcrypt_hash e (str_of (reset_password_field b)) BCRYPT_ROUNDS in
              case update_consume d passwordHash (user_id u) of
                Inl err \<Rightarrow> (reply 500 (ErrorBody msg_reset_failed), d)
              | Inr d' \<Rightarrow> (reply 200 (MessageBody msg_reset_done), d'))))"

section \<open>User management routes\<close>

text \<open>
  Every route of \<open>/users\<close> runs behind \<open>authenticateToken\<close> and \<open>requireAdmin\<close>.
\<close>

definition admin_gate :: "env \<Rightarrow> request \<Rightarrow> middleware_result" where
  "admin_gate e req =
     (case authenticateToken e req of
        Reject r \<Rightarrow> Reject r
      | Next req' \<Rightarrow> requireAdmin req')"

definition msg_role_invalid :: string where
  "msg_role_invalid =
     ''R'' @ [o_circ] @ ''le invalide. Utilisez '' @ [dquote] @ ''user'' @ [dquote]
       @ '' ou '' @ [dquote] @ ''admin'' @ [dquote]"

definition msg_own_role :: string where
  "msg_own_role = ''Vous ne pouvez pas modifier votre propre r'' @ [o_circ] @ ''le''"

definition msg_own_account :: string where
  "msg_own_account = ''Vous ne pouvez pas supprimer votre propre compte''"

definition msg_user_deleted :: string where
  "msg_user_deleted = ''Utilisateur supprim'' @ [e_acute]"

definition msg_admin_reset_failed :: string where
  "msg_admin_reset_failed = ''Erreur lors de la r'' @ [e_acute] @ ''initialisation''"

definition msg_admin_reset_done :: string where
  "msg_admin_reset_done = ''Mot de passe r'' @ [e_acute] @ ''initialis'' @ [e_acute]"

definition msg_update_failed :: string where
  "msg_update_failed = ''Erreur lors de la mise '' @ [a_grave] @ '' jour''"

text \<open>\<open>PATCH /users/:id\<close>\<close>

definition users_patch :: "env \<Rightarrow> db \<Rightarrow> request \<Rightarrow> string \<Rightarrow> string option \<Rightarrow> response \<times> db" where
  "users_patch e d req ident new_role =
     (if falsy new_role \<or> str_of new_role \<notin> set [''user'', ''admin''] then
        (reply 400 (ErrorBody msg_role_invalid), d)
      else
        (case req_user req of
           None \<Rightarrow> (reply 500 (ErrorBody msg_update_failed), d)
         | Some c \<Rightarrow>
             if strict_eq (parseInt ident) (c_id c) \<and> str_of new_role \<noteq> ''admin'' then
               (reply 400 (ErrorBody msg_own_role), d)
             else
               (case with_id_param e d ident
                       (\<lambda>k. (filter (\<lambda>u. user_id u = k) (users d),
                             d\<lparr>users := update_where (\<lambda>u. user_id u = k)
                                  (\<lambda>u. u\<lparr>role := str_of new_role, updated_at := now_ms e\<rparr>)
                                  (users d)\<rparr>)) of
                  Inl err \<Rightarrow> (reply 500 (ErrorBody msg_update_failed), d)
                | Inr ([], d') \<Rightarrow> (reply 404 (ErrorBody msg_not_found), d')
                | Inr (u # rest, d') \<Rightarrow>
                    (reply 200
                       (RowBody (public (u\<lparr>role := str_of new_role\<rparr>)) (now_ms e)), d'))))"

text \<open>\<open>DELETE /users/:id\<close>\<close>

definition users_delete :: "env \<Rightarrow> db \<Rightarrow> request \<Rightarrow> string \<Rightarrow> response \<times> db" where
  "users_delete e d req ident =
     (case req_user req of
        None \<Rightarrow> (reply 500 (ErrorBody ''Erreur lors de la suppression''), d)
      | Some c \<Rightarrow>
          if strict_eq (parseInt ident) (c_id c) then
            (reply 400 (ErrorBody msg_own_account), d)
          else
            (case with_id_param e d ident
                    (\<lambda>k. (filter (\<lambda>u. user_id u = k) (users d),
                          d\<lparr>users := filter (\<lambda>u. user_id u \<noteq> k) (users d)\<rparr>)) of
               Inl err \<Rightarrow> (reply 500 (ErrorBody ''Erreur lors de la suppression''), d)
             | Inr ([], d') \<Rightarrow> (reply 404 (ErrorBody msg_not_found), d')
             | Inr (u # rest, d') \<Rightarrow>
                 (reply 200 (MessageBody msg_user_deleted), d')))"

text \<open>\<open>POST /users/:id/reset-password\<close>\<close>

definition users_reset_password ::
  "env \<Rightarrow> db \<Rightarrow> request \<Rightarrow> string \<Rightarrow> string option \<Rightarrow> response \<times> db" where
  "users_reset_password e d req ident new_password =
     (if falsy new_password \<or> length (str_of new_password) < 8 then
        (reply 400 (ErrorBody msg_password_short), d)
      else
        (let passwordHash = bcrypt_hash e (str_of new_password) BCRYPT_ROUNDS in
         case with_id_param e d ident
                (\<lambda>k. (filter (\<lambda>u. user_id u = k) (users d),
                      d\<lparr>users := update_where (\<lambda>u. user_id u = k)
                           (\<lambda>u. u\<lparr>password_hash := passwordHash, updated_at := now_ms e\<rparr>)
                           (users d)\<rparr>)) of
           Inl err \<Rightarrow> (reply 500 (ErrorBody msg_admin_reset_failed), d)
         | Inr ([], d') \<Rightarrow> (reply 404 (ErrorBody msg_not_found), d')
         | Inr (u # rest, d') \<Rightarrow>
             (reply 200 (MessageBody msg_admin_reset_done), d')))"

text \<open>The routes as mounted: the gate, then the handler on the request the gate passes on.\<close>

definition route_users_patch ::
  "env \<Rightarrow> db \<Rightarrow> request \<Rightarrow> string \<Rightarrow> string option \<Rightarrow> response \<times> db" where
  "route_users_patch e d req ident new_role =
     (case admin_gate e req of
        Reject r \<Rightarrow> (r, d)
      | Next req' \<Rightarrow> users_patch e d req' ident new_role)"

definition route_users_delete :: "env \<Rightarrow> db \<Rightarrow> request \<Rightarrow> string \<Rightarrow> response \<times> db" where
  "route_users_delete e d req ident =
     (case admin_gate e req of
        Reject r \<Rightarrow> (r, d)
      | Next req' \<Rightarrow> users_delete e d req' ident)"

definition route_users_reset_password ::
  "env \<Rightarrow> db \<Rightarrow> request \<Rightarrow> string \<Rightarrow> string option \<Rightarrow> response \<times> db" where
  "route_users_reset_password e d req ident new_password =
     (case admin_gate e req of
        Reject r \<Rightarrow> (r, d)
      | Next req' \<Rightarrow> users_reset_password e d req' ident new_password)"

section \<open>Rate limiting of the authentication routes\<close>

text \<open>The options the repository passes to the limiter of \<open>/auth\<close>.\<close>

record limiter_options =
  windowMs :: int
  max_hits :: nat
  limit_message :: string
  skipSuccessfulRequests :: bool

definition authLimiter :: limiter_options where
  "authLimiter =
     \<lparr>windowMs = 15 * 60 * 1000, max_hits = 5,
      limit_message = ''Trop de tentatives, veuillez r'' @ [e_acute] @ ''essayer dans 15 minutes'',
      skipSuccessfulRequests = True\<rparr>"

text \<open>
  Modelled from the spec: the limiter itself is the express-rate-limit package, which
  the repository only configures and mounts. The specification describes it as a
  process-held counter per client address with a window and a maximum count: a request
  that would exceed the maximum fails with the rate-limit error (429) carrying the
  message; the window resets on expiry, not on success; and the policy of \<open>/auth\<close>
  leaves successful requests out of the count. A window opens with the first request
  counted for a client and is over \<open>windowMs\<close> later.
\<close>

record rate_window =
  window_start :: int
  window_hits :: nat

type_synonym rate_store = "string \<Rightarrow> rate_window option"

text \<open>Modelled from the spec: the window of a client that has not expired.\<close>

definition live_window ::
  "limiter_options \<Rightarrow> rate_store \<Rightarrow> string \<Rightarrow> int \<Rightarrow> rate_window option" where
  "live_window opts st client now =
     (case st client of
        None \<Rightarrow> None
      | Some w \<Rightarrow> if now < window_start w + windowMs opts then Some w else None)"

text \<open>Modelled from the spec: the count of a client in its current window.\<close>

definition hits_in_window :: "limiter_options \<Rightarrow> rate_store \<Rightarrow> string \<Rightarrow> int \<Rightarrow> nat" where
  "hits_in_window opts st client now =
     (case live_window opts st client now of None \<Rightarrow> 0 | Some w \<Rightarrow> window_hits w)"

text \<open>Modelled from the spec: counting one request, in the current window or a new one.\<close>

definition count_hit :: "limiter_options \<Rightarrow> rate_store \<Rightarrow> string \<Rightarrow> int \<Rightarrow> rate_store" where
  "count_hit opts st client now =
     st(client \<mapsto>
        (case live_window opts st client now of
           None \<Rightarrow> \<lparr>window_start = now, window_hits = 1\<rparr>
         | Some w \<Rightarrow> w\<lparr>window_hits := window_hits w + 1\<rparr>))"

text \<open>
  Modelled from the spec: the limiter in front of a router. \<open>handled\<close> is the response
  of the router to the request; it is sent, and counted unless it is a success the
  policy skips, when the request does not exceed the maximum.
\<close>

definition rate_limit ::
  "limiter_options \<Rightarrow> rate_store \<Rightarrow> string \<Rightarrow> int \<Rightarrow> response \<Rightarrow> response \<times> rate_store" where
  "rate_limit opts st client now handled =
     (if max_hits opts < hits_in_window opts st client now + 1 then
        (reply 429 (ErrorBody (limit_message opts)), count_hit opts st client now)
      else if skipSuccessfulRequests opts \<and> status handled < 400 then (handled, st)
      else (handled, count_hit opts st client now))"

text \<open>\<^verbatim>\<open>app.use('/auth', authLimiter, authRouter)\<close>\<close>

definition auth_mount :: "rate_store \<Rightarrow> string \<Rightarrow> int \<Rightarrow> response \<Rightarrow> response \<times> rate_store" where
  "auth_mount st client now handled = rate_limit authLimiter st client now handled"

text \<open>Modelled from the spec: the store after a sequence of requests of one client to
  \<open>/auth\<close>, each given by its time and the response of the router.\<close>

fun serve :: "rate_store \<Rightarrow> string \<Rightarrow> (int \<times> response) list \<Rightarrow> rate_store" where
  "serve st client [] = st"
| "serve st client ((now, handled) # rest) =
     serve (snd (auth_mount st client now handled)) client rest"

section \<open>What the token library is relied on for\<close>

definition with_times :: "payload \<Rightarrow> int \<Rightarrow> int \<Rightarrow> claims" where
  "with_times p issued expires =
     \<lparr>c_id = p_id p, c_username = p_username p, c_email = p_email p, c_role = p_role p,
      c_iat = issued, c_exp = expires\<rparr>"


section \<open>A reference environment\<close>

text \<open>
  A token codec that meets the contract, and simple stand-ins for the other libraries,
  for running the handlers on concrete requests. A token spells out the secret and the
  claims: numbers in unary, strings as their length and their character codes.
\<close>

definition enc_nat :: "nat \<Rightarrow> string" where
  "enc_nat n = replicate n CHR ''1'' @ ''0''"

fun dec_nat :: "string \<Rightarrow> (nat \<times> string) option" where
  "dec_nat [] = None"
| "dec_nat (c # cs) =
     (if c = CHR ''0'' then Some (0, cs)
      else if c = CHR ''1'' then
        (case dec_nat cs of None \<Rightarrow> None | Some (n, r) \<Rightarrow> Some (Suc n, r))
      else None)"

definition enc_int :: "int \<Rightarrow> string" where
  "enc_int i = (if i < 0 then CHR ''-'' else CHR ''+'') # enc_nat (nat \<bar>i\<bar>)"

fun dec_int :: "string \<Rightarrow> (int \<times> string) option" where
  "dec_int [] = None"
| "dec_int (c # cs) =
     (case dec_nat cs of
        None \<Rightarrow> None
      | Some (n, r) \<Rightarrow>
          if c = CHR ''-'' then Some (- int n, r)
          else if c = CHR ''+'' then Some (int n, r)
          else None)"

definition enc_str :: "string \<Rightarrow> string" where
  "enc_str s = enc_nat (length s) @ concat (map (\<lambda>c. enc_nat (code c)) s)"

fun dec_chars :: "nat \<Rightarrow> string \<Rightarrow> (string \<times> string) option" where
  "dec_chars 0 xs = Some ([], xs)"
| "dec_chars (Suc k) xs =
     (case dec_nat xs of
        None \<Rightarrow> None
      | Some (n, r) \<Rightarrow>
          (case dec_chars k r of
             None \<Rightarrow> None
           | Some (cs, r') \<Rightarrow> Some (char_of n # cs, r')))"

definition dec_str :: "string \<Rightarrow> (string \<times> string) option" where
  "dec_str xs = (case dec_nat xs of None \<Rightarrow> None | Some (k, r) \<Rightarrow> dec_chars k r)"

definition codec_token :: "string \<Rightarrow> claims \<Rightarrow> string" where
  "codec_token secret c =
     enc_str secret @ enc_int (c_id c) @ enc_str (c_username c) @ enc_str (c_email c)
       @ enc_str (c_role c) @ enc_int (c_iat c) @ enc_int (c_exp c)"

definition codec_decode :: "string \<Rightarrow> (string \<times> claims) option" where
  "codec_decode tok =
     (case dec_str tok of None \<Rightarrow> None | Some (secret, r1) \<Rightarrow>
      case dec_int r1 of None \<Rightarrow> None | Some (i, r2) \<Rightarrow>
      case dec_str r2 of None \<Rightarrow> None | Some (uname, r3) \<Rightarrow>
      case dec_str r3 of None \<Rightarrow> None | Some (mail, r4) \<Rightarrow>
      case dec_str r4 of None \<Rightarrow> None | Some (rl, r5) \<Rightarrow>
      case dec_int r5 of None \<Rightarrow> None | Some (issued, r6) \<Rightarrow>
      case dec_int r6 of None \<Rightarrow> None | Some (expires, r7) \<Rightarrow>
        if r7 = [] then
          Some (secret, \<lparr>c_id = i, c_username = uname, c_email = mail, c_role = rl,
                         c_iat = issued, c_exp = expires\<rparr>)
        else None)"

definition codec_span :: "string \<Rightarrow> int option" where
  "codec_span x =
     (if x = ''7d'' then Some 604800 else if x = ''1h'' then Some 3600 else None)"

definition codec_sign :: "payload \<Rightarrow> string \<Rightarrow> string \<Rightarrow> int \<Rightarrow> string option" where
  "codec_sign p secret x t0 =
     (case codec_span x of
        None \<Rightarrow> None
      | Some d \<Rightarrow> Some (codec_token secret (with_times p t0 (t0 + d))))"

definition codec_verify :: "string \<Rightarrow> string \<Rightarrow> int \<Rightarrow> verify_result" where
  "codec_verify tok secret t =
     (case codec_decode tok of
        None \<Rightarrow> JsonWebTokenError
      | Some (signed_with, c) \<Rightarrow>
          if signed_with \<noteq> secret then JsonWebTokenError
          else if c_exp c \<le> t then TokenExpiredError
          else Decoded c)"

definition demo_hash :: "string \<Rightarrow> nat \<Rightarrow> string" where
  "demo_hash pw rounds = ''$2b$'' @ pw"

definition demo_compare :: "string \<Rightarrow> string \<Rightarrow> bool" where
  "demo_compare pw h = (h = ''$2b$'' @ pw)"

definition demo_digest :: "string \<Rightarrow> string" where
  "demo_digest s = ''sha256:'' @ s"

definition smtp_up :: "mail \<Rightarrow> bool" where
  "smtp_up m = True"

definition smtp_down :: "mail \<Rightarrow> bool" where
  "smtp_down m = False"

definition pg_decimal :: "string \<Rightarrow> int option" where
  "pg_decimal s =
     (if s \<noteq> [] \<and> list_all is_digit s then Some (int (digits_value 10 0 s)) else None)"

text \<open>
  The integer input of PostgreSQL from version 16 on, for unsigned literals: decimal
  digits, or binary, octal or hexadecimal digits after \<open>0b\<close>, \<open>0o\<close> or \<open>0x\<close>.
\<close>

definition prefixed :: "char \<Rightarrow> char \<Rightarrow> nat \<Rightarrow> string \<Rightarrow> int option" where
  "prefixed lower upper R s =
     (case s of
        a # b # ds \<Rightarrow>
          if a = CHR ''0'' \<and> (b = lower \<or> b = upper) \<and> ds \<noteq> [] \<and> list_all (in_radix R) ds
          then Some (int (digits_value R 0 ds))
          else None
      | _ \<Rightarrow> None)"

definition pg16_int :: "string \<Rightarrow> int option" where
  "pg16_int s =
     (case prefixed CHR ''b'' CHR ''B'' 2 s of
        Some k \<Rightarrow> Some k
      | None \<Rightarrow>
          (case prefixed CHR ''o'' CHR ''O'' 8 s of
             Some k \<Rightarrow> Some k
           | None \<Rightarrow>
               (case prefixed CHR ''x'' CHR ''X'' 16 s of
                  Some k \<Rightarrow> Some k
                | None \<Rightarrow> pg_decimal s)))"

definition demo_env :: env where
  "demo_env =
     \<lparr>DATABASE_URL = Some ''postgresql://bar'', JWT_SECRET = Some ''s3cret'',
      JWT_EXPIRES_IN = None, FRONTEND_URL = None, now_ms = 5000,
      jwt_sign = codec_sign, jwt_verify = codec_verify,
      bcrypt_hash = demo_hash, bcrypt_compare = demo_compare,
      sha256_hex = demo_digest, random_hex = ''c0ffee'',
      send_mail = smtp_up, pg_int = pg_decimal\<rparr>"

definition alice :: user where
  "alice =
     \<lparr>user_id = 1, username = ''alice'', email = ''alice@x.com'',
      password_hash = ''$2b$password1'', role = ''admin'', reset_token = None,
      reset_token_expiry = None, updated_at = 0\<rparr>"

definition bob :: user where
  "bob =
     \<lparr>user_id = 2, username = ''bob'', email = ''bob@x.com'',
      password_hash = ''$2b$hunter2hunter2'', role = ''user'', reset_token = None,
      reset_token_expiry = None, updated_at = 0\<rparr>"

definition pg16_env :: env where
  "pg16_env = demo_env\<lparr>pg_int := pg16_int\<rparr>"

definition demo_db :: db where
  "demo_db = \<lparr>connected = True, users = [alice, bob], next_id = 3\<rparr>"

text \<open>The claims of a token issued to \<open>alice\<close>, and a request that carries the token.\<close>

definition alice_claims :: claims where
  "alice_claims =
     \<lparr>c_id = 1, c_username = ''alice'', c_email = ''alice@x.com'', c_role = ''admin'',
      c_iat = 5, c_exp = 604805\<rparr>"

definition alice_request :: request where
  "alice_request =
     \<lparr>authorization = Some (bearer (codec_token ''s3cret'' alice_claims)),
      req_user = None\<rparr>"

text \<open>A database in which \<open>alice\<close> holds a reset token, and a registration.\<close>

definition pending_db :: db where
  "pending_db =
     \<lparr>connected = True,
      users = [alice\<lparr>reset_token := Some ''sha256:c0ffee'', reset_token_expiry := Some 3605000\<rparr>, bob],
      next_id = 3\<rparr>"

definition dave_body :: register_body where
  "dave_body = \<lparr>reg_username = Some ''dave'', reg_email = Some ''dave@x.com'',
                 reg_password = Some ''password1''\<rparr>"

definition dave_row :: user where
  "dave_row = \<lparr>user_id = 3, username = ''Dave'', email = ''DAVE@x.com'',
      password_hash = ''$2b$password2'', role = ''user'', reset_token = None,
      reset_token_expiry = None, updated_at = 5000\<rparr>"

section \<open>Facts about the reference environment\<close>

lemma demo_listening: "verify_environment demo_env = Listening"
  by (simp add: verify_environment_def demo_env_def falsy_def)

lemma lower_eval:
  "LOWER ''dave'' = ''dave''" "LOWER ''dave@x.com'' = ''dave@x.com''"
  "LOWER ''Dave'' = ''dave''" "LOWER ''DAVE@x.com'' = ''dave@x.com''"
  "LOWER ''alice'' = ''alice''" "LOWER ''alice@x.com'' = ''alice@x.com''"
  "LOWER ''bob'' = ''bob''" "LOWER ''bob@x.com'' = ''bob@x.com''"
  "LOWER ''nobody@x.com'' = ''nobody@x.com''" "LOWER ''nobody'' = ''nobody''"
  "LOWER ''ALICE@X.COM'' = ''alice@x.com''"
  by (simp_all add: LOWER_def lower_char_def)

lemma dec_nat_enc: "dec_nat (enc_nat n @ r) = Some (n, r)"
  by (induction n) (simp_all add: enc_nat_def)

lemma dec_int_enc: "dec_int (enc_int i @ r) = Some (i, r)"
  by (simp add: enc_int_def dec_nat_enc)

lemma dec_chars_enc:
  "dec_chars (length s) (concat (map (\<lambda>c. enc_nat (code c)) s) @ r) = Some (s, r)"
  by (induction s) (simp_all add: dec_nat_enc code_def)

lemma dec_str_enc: "dec_str (enc_str s @ r) = Some (s, r)"
  by (simp add: dec_str_def enc_str_def dec_nat_enc dec_chars_enc)

lemma codec_decode_token: "codec_decode (codec_token s c) = Some (s, c)"
proof -
  have "dec_int (enc_int (c_exp c)) = Some (c_exp c, [])"
    using dec_int_enc [of "c_exp c" "[]"] by simp
  then show ?thesis
    by (simp add: codec_decode_def codec_token_def dec_str_enc dec_int_enc)
qed

lemma codec_verify_token: "t < c_exp c \<Longrightarrow> codec_verify (codec_token s c) s t = Decoded c"
  by (simp add: codec_verify_def codec_decode_token)

lemma set_enc_nat: "set (enc_nat n) \<subseteq> {CHR ''0'', CHR ''1''}"
  by (auto simp: enc_nat_def)

lemma space_enc_nat: "CHR '' '' \<notin> set (enc_nat n)"
  using set_enc_nat [of n] by auto

lemma space_enc_int: "CHR '' '' \<notin> set (enc_int i)"
  by (simp add: enc_int_def space_enc_nat)

lemma space_enc_str: "CHR '' '' \<notin> set (enc_str s)"
  by (induction s) (auto simp: enc_str_def space_enc_nat)

lemma codec_token_no_space: "CHR '' '' \<notin> set (codec_token s c)"
  by (simp add: codec_token_def space_enc_int space_enc_str)

lemma codec_token_not_empty: "codec_token s c \<noteq> []"
  by (simp add: codec_token_def enc_int_def)

lemma codec_span_positive: "codec_span x = Some n \<Longrightarrow> 0 < n"
  by (auto simp: codec_span_def split: if_splits)


lemma js_split_no_separator: "c \<notin> set s \<Longrightarrow> js_split c s = [s]"
  by (induction s) auto

lemma js_split_bearer:
  "CHR '' '' \<notin> set tok \<Longrightarrow> js_split CHR '' '' (bearer tok) = [''Bearer'', tok]"
  by (simp add: bearer_def js_split_no_separator)

lemma bearer_not_empty: "bearer tok \<noteq> []"
  by (simp add: bearer_def)

lemma bearer_token_bearer:
  "CHR '' '' \<notin> set tok \<Longrightarrow> bearer_token (Some (bearer tok)) = Some tok"
  by (simp add: bearer_token_def falsy_def str_of_def js_split_bearer bearer_not_empty)

lemma demo_auth_alice:
  "authenticateToken demo_env alice_request = Next (alice_request\<lparr>req_user := Some alice_claims\<rparr>)"
proof -
  have "codec_verify (codec_token ''s3cret'' alice_claims) ''s3cret'' 5 = Decoded alice_claims"
    by (rule codec_verify_token) (simp add: alice_claims_def)
  then show ?thesis
    by (simp add: authenticateToken_def alice_request_def bearer_token_bearer
        codec_token_no_space codec_token_not_empty falsy_def str_of_def demo_env_def now_s_def)
qed

lemma demo_gate_alice:
  "admin_gate demo_env alice_request = Next (alice_request\<lparr>req_user := Some alice_claims\<rparr>)"
  by (simp add: admin_gate_def demo_auth_alice requireAdmin_def alice_claims_def)

lemma demo_login_nobody:
  "login demo_env demo_db \<lparr>login_login = Some ''nobody'', login_password = Some ''password1''\<rparr>
     = reply 401 (ErrorBody msg_bad_credentials)"
  by (simp add: login_def falsy_def str_of_def select_by_login_def pool_query_def demo_db_def
      alice_def bob_def lower_eval)

lemma parseInt_1: "parseInt ''1'' = Num 1"
  by (simp add: parseInt_def is_js_space_def code_def in_radix_def digit_of_def is_digit_def)

lemma parseInt_examples:
  "parseInt ''42'' = Num 42" "parseInt '' 42abc'' = Num 42" "parseInt ''-7'' = Num (- 7)"
  "parseInt ''0x1F'' = Num 31" "parseInt ''abc'' = NaN" "parseInt '''' = NaN"
  "parseInt ''0b10'' = Num 0" "parseInt ''1_0'' = Num 1" "parseInt ''0x'' = NaN"
  by (simp_all add: parseInt_def is_js_space_def code_def in_radix_def digit_of_def is_digit_def
      is_lower_def is_upper_def)

lemma pg_decimal_1: "pg_decimal ''1'' = Some 1"
  by (simp add: pg_decimal_def is_digit_def code_def digit_of_def)

lemmas email_defs = regex_test_def emailRegex_def one_or_more_def two_or_more_def
  local_class_def domain_class_def letter_class_def is_char_def is_upper_def is_lower_def
  is_digit_def code_def

lemma email_examples:
  "regex_test emailRegex ''a@b.co''" "\<not> regex_test emailRegex ''a@b.c''"
  "\<not> regex_test emailRegex ''bob''" "regex_test emailRegex ''A@b.com''"
  "\<not> regex_test emailRegex ''a@@b.co''" "\<not> regex_test emailRegex ''''"
  "regex_test emailRegex ''x.y_z%+-9@sub.dom-ain.org''"
  "\<not> regex_test emailRegex ''a@b.c0''" "\<not> regex_test emailRegex ''a b@c.de''"
  by (simp_all add: email_defs)

lemma emailRegex_not_empty: "regex_test emailRegex m \<Longrightarrow> m \<noteq> []"
  by (auto simp: email_defs)

lemma messages_distinct:
  "msg_register_required \<noteq> msg_username_short" "msg_password_short \<noteq> msg_username_short"
  "msg_email_format \<noteq> msg_username_short" "msg_register_required \<noteq> msg_password_short"
  "msg_username_short \<noteq> msg_password_short" "msg_email_format \<noteq> msg_password_short"
  by (simp_all add: msg_register_required_def msg_username_short_def msg_password_short_def
      msg_email_format_def)

lemma dave_valid: "register_validation dave_body = None"
  by (simp add: register_validation_def dave_body_def falsy_def str_of_def email_defs)

section \<open>The authentication middleware\<close>

text \<open>
  Claim C1. In a started server, the authentication middleware is the state machine of
  the specification: no header, or no token after the split, is rejected with 401; an
  expired token with 401 and the expired message; any other verification failure with
  403 and the invalid message; a verified token attaches the decoded claims to the
  request and continues.
\<close>

theorem authenticateToken_state_machine:
  assumes "verify_environment e = Listening"
  shows "authenticateToken e req = spec_transition (spec_auth_state e req) req"
proof -
  from assms have secret: "\<not> falsy (JWT_SECRET e)"
    by (simp add: verify_environment_def split: if_splits)
  show ?thesis
  proof (cases "authorization req")
    case None
    then show ?thesis
      by (simp add: authenticateToken_def spec_auth_state_def bearer_token_def falsy_def)
  next
    case (Some h)
    show ?thesis
    proof (cases "h = []")
      case True
      with Some show ?thesis
        by (simp add: authenticateToken_def spec_auth_state_def bearer_token_def falsy_def)
    next
      case False
      with Some secret show ?thesis
        by (auto simp: authenticateToken_def spec_auth_state_def bearer_token_def falsy_def
            str_of_def Let_def split: option.splits verify_result.splits)
    qed
  qed
qed

theorem authenticateToken_state_machine_witness:
  "verify_environment demo_env = Listening \<and>
   authenticateToken demo_env \<lparr>authorization = Some ''Bearer'', req_user = None\<rparr>
     = Reject (reply 401 (ErrorBody ''Authentication required'')) \<and>
   authenticateToken demo_env \<lparr>authorization = Some ''Bearer abc'', req_user = None\<rparr>
     = Reject (reply 403 (ErrorBody ''Invalid token''))"
  using authenticateToken_state_machine [OF demo_listening,
      of "\<lparr>authorization = Some ''Bearer'', req_user = None\<rparr>"]
    authenticateToken_state_machine [OF demo_listening,
      of "\<lparr>authorization = Some ''Bearer abc'', req_user = None\<rparr>"]
  by (simp add: verify_environment_def falsy_def spec_auth_state_def demo_env_def codec_verify_def
      codec_decode_def dec_str_def str_of_def now_s_def)

section \<open>Issuing and verifying a token\<close>



section \<open>Consuming a reset token\<close>

lemma holds_token_iff:
  "holds_token h now u \<longleftrightarrow>
     reset_token u = Some h \<and> (\<exists>x. reset_token_expiry u = Some x \<and> now < x)"
  by (auto simp: holds_token_def split: option.splits)

lemma filter_empty_iff: "filter P xs = [] \<longleftrightarrow> \<not> (\<exists>x \<in> set xs. P x)"
  by (simp add: filter_empty_conv)

lemma reset_password_no_match:
  assumes "connected d" "reset_token_field b = Some tok" "tok \<noteq> []"
    "reset_password_field b = Some pw" "8 \<le> length pw"
    "filter (holds_token (sha256_hex e tok) (now_ms e)) (users d) = []"
  shows "reset_password e d b = (reply 400 (ErrorBody msg_invalid_or_expired), d)"
proof -
  from assms(5) have "pw \<noteq> []" by auto
  with assms show ?thesis
    by (simp add: reset_password_def falsy_def str_of_def select_by_reset_token_def
        pool_query_def)
qed

lemma reset_password_match:
  assumes "connected d" "reset_token_field b = Some tok" "tok \<noteq> []"
    "reset_password_field b = Some pw" "8 \<le> length pw"
    "filter (holds_token (sha256_hex e tok) (now_ms e)) (users d) = u # rest"
  shows "reset_password e d b =
           (reply 200 (MessageBody msg_reset_done),
            d\<lparr>users := update_where (\<lambda>v. user_id v = user_id u)
                 (consume_row (bcrypt_hash e pw BCRYPT_ROUNDS)) (users d)\<rparr>)"
proof -
  from assms(5) have "pw \<noteq> []" by auto
  with assms show ?thesis
    by (simp add: reset_password_def falsy_def str_of_def select_by_reset_token_def
        pool_query_def update_consume_def)
qed

lemma consumed_holds_nothing:
  assumes only: "\<forall>v \<in> set us. reset_token v = Some h \<longrightarrow> user_id v = k"
  shows "filter (holds_token h now) (update_where (\<lambda>v. user_id v = k) (consume_row new) us) = []"
  using only
  by (induction us) (auto simp: update_where_def consume_row_def holds_token_def)

text \<open>
  Claim C3. With the database reachable, a token presented and a new password of at
  least 8 characters, consuming a reset token succeeds exactly when some user stores the
  hash of the presented token with an expiry still in the future. Every other
  presentation is answered with the one invalid-or-expired error (400) and leaves the
  table as it was. On success one update stores the new password hash and clears both
  reset-token fields of the matched account; when the hash identifies one account, a
  second consumption with the same token, at any later time and with any valid
  password, fails with that same error and changes nothing.
\<close>

theorem reset_password_consumption:
  assumes "connected d" and "reset_token_field b = Some tok" and "tok \<noteq> []"
    and "reset_password_field b = Some pw" and "8 \<le> length pw"
  shows
    "(status (fst (reset_password e d b)) = 200 \<longleftrightarrow>
        (\<exists>u \<in> set (users d). reset_token u = Some (sha256_hex e tok) \<and>
           (\<exists>x. reset_token_expiry u = Some x \<and> now_ms e < x))) \<and>
     (status (fst (reset_password e d b)) \<noteq> 200 \<longrightarrow>
        reset_password e d b = (reply 400 (ErrorBody msg_invalid_or_expired), d)) \<and>
     (status (fst (reset_password e d b)) = 200 \<longrightarrow>
        (\<exists>u \<in> set (users d). reset_token u = Some (sha256_hex e tok) \<and>
           (\<exists>x. reset_token_expiry u = Some x \<and> now_ms e < x) \<and>
           snd (reset_password e d b) =
             d\<lparr>users := map (\<lambda>v. if user_id v = user_id u
                                   then v\<lparr>password_hash := bcrypt_hash e pw BCRYPT_ROUNDS,
                                          reset_token := None, reset_token_expiry := None\<rparr>
                                   else v) (users d)\<rparr>)) \<and>
     (status (fst (reset_password e d b)) = 200 \<and>
      (\<forall>u \<in> set (users d). \<forall>v \<in> set (users d).
          reset_token u = Some (sha256_hex e tok) \<and> reset_token v = Some (sha256_hex e tok)
            \<longrightarrow> user_id u = user_id v) \<and>
      sha256_hex e' = sha256_hex e \<and> reset_token_field b' = Some tok \<and>
      reset_password_field b' = Some pw' \<and> 8 \<le> length pw' \<longrightarrow>
        reset_password e' (snd (reset_password e d b)) b' =
          (reply 400 (ErrorBody msg_invalid_or_expired), snd (reset_password e d b)))"
proof (cases "filter (holds_token (sha256_hex e tok) (now_ms e)) (users d)")
  case Nil
  then have none: "\<not> (\<exists>u \<in> set (users d). reset_token u = Some (sha256_hex e tok) \<and>
           (\<exists>x. reset_token_expiry u = Some x \<and> now_ms e < x))"
    by (simp add: filter_empty_iff holds_token_iff)
  have r: "reset_password e d b = (reply 400 (ErrorBody msg_invalid_or_expired), d)"
    using reset_password_no_match [OF assms Nil] .
  have "status (fst (reset_password e d b)) \<noteq> 200"
    by (simp add: r reply_def)
  with r none show ?thesis
    by simp
next
  case (Cons u rest)
  let ?h = "sha256_hex e tok"
  let ?d' = "d\<lparr>users := update_where (\<lambda>v. user_id v = user_id u)
                 (consume_row (bcrypt_hash e pw BCRYPT_ROUNDS)) (users d)\<rparr>"
  have r: "reset_password e d b = (reply 200 (MessageBody msg_reset_done), ?d')"
    using reset_password_match [OF assms Cons] .
  have "u \<in> set (filter (holds_token ?h (now_ms e)) (users d))"
    by (simp add: Cons)
  then have u: "u \<in> set (users d)" "holds_token ?h (now_ms e) u"
    by simp_all
  then have some: "\<exists>u \<in> set (users d). reset_token u = Some ?h \<and>
           (\<exists>x. reset_token_expiry u = Some x \<and> now_ms e < x)"
    unfolding holds_token_iff by blast
  let ?new = "d\<lparr>users := map (\<lambda>v. if user_id v = user_id u
                                   then v\<lparr>password_hash := bcrypt_hash e pw BCRYPT_ROUNDS,
                                          reset_token := None, reset_token_expiry := None\<rparr>
                                   else v) (users d)\<rparr>"
  have upd: "?d' = ?new"
    by (simp add: update_where_def consume_row_def)
  have "snd (reset_password e d b) = ?d'"
    by (simp add: r)
  then have stored: "snd (reset_password e d b) = ?new"
    by (simp only: upd)
  from u(2) have held: "reset_token u = Some ?h \<and>
      (\<exists>x. reset_token_expiry u = Some x \<and> now_ms e < x)"
    by (simp add: holds_token_iff)
  have third: "\<exists>u \<in> set (users d). reset_token u = Some (sha256_hex e tok) \<and>
           (\<exists>x. reset_token_expiry u = Some x \<and> now_ms e < x) \<and>
           snd (reset_password e d b) =
             d\<lparr>users := map (\<lambda>v. if user_id v = user_id u
                                   then v\<lparr>password_hash := bcrypt_hash e pw BCRYPT_ROUNDS,
                                          reset_token := None, reset_token_expiry := None\<rparr>
                                   else v) (users d)\<rparr>"
    by (rule bexI [OF _ u(1)]) (use held stored in blast)
  have again: "reset_password e' (snd (reset_password e d b)) b' =
          (reply 400 (ErrorBody msg_invalid_or_expired), snd (reset_password e d b))"
    if one: "\<forall>u \<in> set (users d). \<forall>v \<in> set (users d).
          reset_token u = Some ?h \<and> reset_token v = Some ?h \<longrightarrow> user_id u = user_id v"
      and same: "sha256_hex e' = sha256_hex e"
      and b': "reset_token_field b' = Some tok" "reset_password_field b' = Some pw'"
        "8 \<le> length pw'"
  proof -
    from one u(1) held
    have "\<forall>v \<in> set (users d). reset_token v = Some ?h \<longrightarrow> user_id v = user_id u"
      by blast
    then have "filter (holds_token ?h (now_ms e')) (users ?d') = []"
      by (simp add: consumed_holds_nothing)
    then have "filter (holds_token (sha256_hex e' tok) (now_ms e')) (users ?d') = []"
      by (simp add: same)
    moreover have "connected ?d'" using assms(1) by simp
    ultimately have "reset_password e' ?d' b' = (reply 400 (ErrorBody msg_invalid_or_expired), ?d')"
      using reset_password_no_match [of ?d' b' tok pw' e'] b' assms(3) by simp
    then show ?thesis by (simp add: r)
  qed
  have ok: "status (fst (reset_password e d b)) = 200"
    by (simp add: r reply_def)
  show ?thesis
  proof (intro conjI impI)
    show "(status (fst (reset_password e d b)) = 200) =
        (\<exists>u \<in> set (users d). reset_token u = Some (sha256_hex e tok) \<and>
           (\<exists>x. reset_token_expiry u = Some x \<and> now_ms e < x))"
      using ok some by simp
  next
    assume "status (fst (reset_password e d b)) \<noteq> 200"
    with ok show "reset_password e d b = (reply 400 (ErrorBody msg_invalid_or_expired), d)"
      by simp
  next
    show "\<exists>u \<in> set (users d). reset_token u = Some (sha256_hex e tok) \<and>
           (\<exists>x. reset_token_expiry u = Some x \<and> now_ms e < x) \<and>
           snd (reset_password e d b) =
             d\<lparr>users := map (\<lambda>v. if user_id v = user_id u
                                   then v\<lparr>password_hash := bcrypt_hash e pw BCRYPT_ROUNDS,
                                          reset_token := None, reset_token_expiry := None\<rparr>
                                   else v) (users d)\<rparr>"
      using third .
  next
    assume "status (fst (reset_password e d b)) = 200 \<and>
      (\<forall>u \<in> set (users d). \<forall>v \<in> set (users d).
          reset_token u = Some (sha256_hex e tok) \<and> reset_token v = Some (sha256_hex e tok)
            \<longrightarrow> user_id u = user_id v) \<and>
      sha256_hex e' = sha256_hex e \<and> reset_token_field b' = Some tok \<and>
      reset_password_field b' = Some pw' \<and> 8 \<le> length pw'"
    then show "reset_password e' (snd (reset_password e d b)) b' =
          (reply 400 (ErrorBody msg_invalid_or_expired), snd (reset_password e d b))"
      using again by blast
  qed
qed

theorem reset_password_consumption_witness:
  "status (fst (reset_password demo_env pending_db
      \<lparr>reset_token_field = Some ''c0ffee'', reset_password_field = Some ''brandnew1''\<rparr>)) = 200 \<and>
   reset_password demo_env
      (snd (reset_password demo_env pending_db
         \<lparr>reset_token_field = Some ''c0ffee'', reset_password_field = Some ''brandnew1''\<rparr>))
      \<lparr>reset_token_field = Some ''c0ffee'', reset_password_field = Some ''brandnew1''\<rparr>
     = (reply 400 (ErrorBody msg_invalid_or_expired),
        snd (reset_password demo_env pending_db
          \<lparr>reset_token_field = Some ''c0ffee'', reset_password_field = Some ''brandnew1''\<rparr>)) \<and>
   reset_password (demo_env\<lparr>now_ms := 3605000\<rparr>) pending_db
      \<lparr>reset_token_field = Some ''c0ffee'', reset_password_field = Some ''brandnew1''\<rparr>
     = (reply 400 (ErrorBody msg_invalid_or_expired), pending_db)"
proof -
  let ?b = "\<lparr>reset_token_field = Some ''c0ffee'', reset_password_field = Some ''brandnew1''\<rparr>"
  let ?late = "demo_env\<lparr>now_ms := 3605000\<rparr>"
  have pre: "connected pending_db" "reset_token_field ?b = Some ''c0ffee''" "''c0ffee'' \<noteq> []"
    "reset_password_field ?b = Some ''brandnew1''" "8 \<le> length ''brandnew1''"
    by (simp_all add: pending_db_def)
  note now = reset_password_consumption
    [OF pre, where e = demo_env and e' = demo_env and b' = ?b and pw' = "''brandnew1''"]
  note late = reset_password_consumption
    [OF pre, where e = ?late and e' = demo_env and b' = ?b and pw' = "''brandnew1''"]
  have holder: "\<exists>u \<in> set (users pending_db).
      reset_token u = Some (sha256_hex demo_env ''c0ffee'') \<and>
      (\<exists>x. reset_token_expiry u = Some x \<and> now_ms demo_env < x)"
    by (simp add: pending_db_def alice_def bob_def demo_env_def demo_digest_def)
  have single: "\<forall>u \<in> set (users pending_db). \<forall>v \<in> set (users pending_db).
      reset_token u = Some (sha256_hex demo_env ''c0ffee'') \<and>
      reset_token v = Some (sha256_hex demo_env ''c0ffee'') \<longrightarrow> user_id u = user_id v"
    by (simp add: pending_db_def alice_def bob_def demo_env_def demo_digest_def)
  have expired: "\<not> (\<exists>u \<in> set (users pending_db).
      reset_token u = Some (sha256_hex ?late ''c0ffee'') \<and>
      (\<exists>x. reset_token_expiry u = Some x \<and> now_ms ?late < x))"
    by (simp add: pending_db_def alice_def bob_def demo_env_def demo_digest_def)
  from now holder have ok: "status (fst (reset_password demo_env pending_db ?b)) = 200"
    by blast
  from now ok single pre have again: "reset_password demo_env
      (snd (reset_password demo_env pending_db ?b)) ?b
     = (reply 400 (ErrorBody msg_invalid_or_expired), snd (reset_password demo_env pending_db ?b))"
    by blast
  from late expired have "status (fst (reset_password ?late pending_db ?b)) \<noteq> 200"
    by blast
  with late have "reset_password ?late pending_db ?b
     = (reply 400 (ErrorBody msg_invalid_or_expired), pending_db)"
    by blast
  with ok again show ?thesis by blast
qed

section \<open>Registration\<close>

text \<open>
  Claim C4, at a failing input. Two registrations for the same name and e-mail in
  different letter case both pass the check for an existing user on the same table;
  the first to insert is answered 201; the insert of the second is refused by the
  unique constraint, and the handler answers 500 where the claim asks for 409.
\<close>

theorem register_race_answers_500:
  "register_check demo_db dave_body = Inr (''dave'', ''dave@x.com'', ''password1'') \<and>
   status (fst (register_insert demo_env demo_db (''Dave'', ''DAVE@x.com'', ''password2''))) = 201 \<and>
   snd (register_insert demo_env demo_db (''Dave'', ''DAVE@x.com'', ''password2''))
     = demo_db\<lparr>users := [alice, bob, dave_row], next_id := 4\<rparr> \<and>
   register_insert demo_env (demo_db\<lparr>users := [alice, bob, dave_row], next_id := 4\<rparr>)
       (''dave'', ''dave@x.com'', ''password1'')
     = (reply 500 (ErrorBody msg_register_failed),
        demo_db\<lparr>users := [alice, bob, dave_row], next_id := 4\<rparr>)"
proof -
  have check: "register_check demo_db dave_body = Inr (''dave'', ''dave@x.com'', ''password1'')"
    by (simp add: register_check_def dave_valid select_existing_def pool_query_def)
       (simp add: dave_body_def str_of_def demo_db_def alice_def bob_def lower_eval)
  have free: "\<not> violates_unique (users demo_db) ''Dave'' ''DAVE@x.com''"
    by (simp add: violates_unique_def demo_db_def alice_def bob_def lower_eval)
  have ins: "insert_user demo_env demo_db ''Dave'' ''DAVE@x.com'' ''$2b$password2''
     = Inr (dave_row, demo_db\<lparr>users := [alice, bob, dave_row], next_id := 4\<rparr>)"
    using free by (simp add: insert_user_def dave_row_def Let_def demo_db_def demo_env_def)
  have tok: "generateToken demo_env dave_row \<noteq> None"
    by (simp add: generateToken_def demo_env_def falsy_def codec_sign_def codec_span_def)
  have first: "status (fst (register_insert demo_env demo_db (''Dave'', ''DAVE@x.com'', ''password2''))) = 201
    \<and> snd (register_insert demo_env demo_db (''Dave'', ''DAVE@x.com'', ''password2''))
     = demo_db\<lparr>users := [alice, bob, dave_row], next_id := 4\<rparr>"
    using tok ins
    by (auto simp: register_insert_def BCRYPT_ROUNDS_def reply_def demo_hash_def
        demo_env_def split: option.splits)
  have taken: "violates_unique [alice, bob, dave_row] ''dave'' ''dave@x.com''"
    by (simp add: violates_unique_def dave_row_def lower_eval)
  have second: "register_insert demo_env (demo_db\<lparr>users := [alice, bob, dave_row], next_id := 4\<rparr>)
       (''dave'', ''dave@x.com'', ''password1'')
     = (reply 500 (ErrorBody msg_register_failed),
        demo_db\<lparr>users := [alice, bob, dave_row], next_id := 4\<rparr>)"
    using taken by (simp add: register_insert_def insert_user_def demo_db_def)
  from check first second show ?thesis by simp
qed

lemma register_responses:
  "fst (register e d b) = reply 400 (ErrorBody msg_register_required) \<or>
   fst (register e d b) = reply 400 (ErrorBody msg_username_short) \<and>
     length (str_of (reg_username b)) < 3 \<or>
   fst (register e d b) = reply 400 (ErrorBody msg_password_short) \<and>
     length (str_of (reg_password b)) < 8 \<or>
   fst (register e d b) = reply 400 (ErrorBody msg_email_format) \<or>
   status (fst (register e d b)) \<noteq> 400"
  by (auto simp: register_def register_check_def register_validation_def register_insert_def
      reply_def Let_def split: sum.splits option.splits prod.splits)

text \<open>
  Claim C7. Registration puts the boundaries where the specification has them. A
  username shorter than 3 characters, a password shorter than 8 characters and an
  e-mail the pattern does not match are each answered with 400, and nothing is stored.
  With a username of at least 3 characters the response is never the username error,
  and with a password of at least 8 never the password error. A request that passes
  the three checks goes on to the query for an existing user: with the database
  unreachable the response is 500; with a user of that username or e-mail in any
  letter case it is 409 and nothing is stored; otherwise the new row is stored with
  the next id, the hash of the password and the role \<open>user\<close>, and the response is 201
  with the user and a token (500 if no token can be issued).
\<close>

theorem register_validation_boundaries:
  "(reg_username b = Some u \<and> length u < 3 \<longrightarrow>
      status (fst (register e d b)) = 400 \<and> snd (register e d b) = d) \<and>
   (reg_username b = Some u \<and> 3 \<le> length u \<longrightarrow>
      fst (register e d b) \<noteq> reply 400 (ErrorBody msg_username_short)) \<and>
   (reg_password b = Some p \<and> length p < 8 \<longrightarrow>
      status (fst (register e d b)) = 400 \<and> snd (register e d b) = d) \<and>
   (reg_password b = Some p \<and> 8 \<le> length p \<longrightarrow>
      fst (register e d b) \<noteq> reply 400 (ErrorBody msg_password_short)) \<and>
   (reg_email b = Some m \<and> \<not> regex_test emailRegex m \<longrightarrow>
      status (fst (register e d b)) = 400 \<and> snd (register e d b) = d) \<and>
   (reg_username b = Some u \<and> 3 \<le> length u \<and> reg_password b = Some p \<and> 8 \<le> length p \<and>
    reg_email b = Some m \<and> regex_test emailRegex m \<longrightarrow>
      (\<not> connected d \<longrightarrow>
         register e d b = (reply 500 (ErrorBody msg_register_failed), d)) \<and>
      (connected d \<and>
       (\<exists>v \<in> set (users d). LOWER (username v) = LOWER u \<or> LOWER (email v) = LOWER m) \<longrightarrow>
         register e d b = (reply 409 (ErrorBody msg_conflict), d)) \<and>
      (connected d \<and>
       \<not> (\<exists>v \<in> set (users d). LOWER (username v) = LOWER u \<or> LOWER (email v) = LOWER m) \<longrightarrow>
         snd (register e d b) =
           d\<lparr>users := users d @
                 [\<lparr>user_id = next_id d, username = u, email = m,
                   password_hash = bcrypt_hash e p 10, role = ''user'', reset_token = None,
                   reset_token_expiry = None, updated_at = now_ms e\<rparr>],
              next_id := next_id d + 1\<rparr> \<and>
         fst (register e d b) =
           (case generateToken e
                   \<lparr>user_id = next_id d, username = u, email = m,
                    password_hash = bcrypt_hash e p 10, role = ''user'', reset_token = None,
                    reset_token_expiry = None, updated_at = now_ms e\<rparr> of
              None \<Rightarrow> reply 500 (ErrorBody msg_register_failed)
            | Some token \<Rightarrow>
                reply 201
                  (AuthBody \<lparr>pu_id = next_id d, pu_username = u, pu_email = m,
                             pu_role = ''user''\<rparr> token))))"
proof -
  let ?row = "\<lparr>user_id = next_id d, username = u, email = m,
               password_hash = bcrypt_hash e p 10, role = ''user'', reset_token = None,
               reset_token_expiry = None, updated_at = now_ms e\<rparr>"
  let ?taken = "\<exists>v \<in> set (users d). LOWER (username v) = LOWER u \<or> LOWER (email v) = LOWER m"
  have short_u: "status (fst (register e d b)) = 400 \<and> snd (register e d b) = d"
    if "reg_username b = Some u" "length u < 3"
    using that
    by (simp add: register_def register_check_def register_validation_def falsy_def
        str_of_def reply_def split: option.splits)
  have short_p: "status (fst (register e d b)) = 400 \<and> snd (register e d b) = d"
    if "reg_password b = Some p" "length p < 8"
    using that
    by (simp add: register_def register_check_def register_validation_def falsy_def
        str_of_def reply_def split: option.splits)
  have bad_m: "status (fst (register e d b)) = 400 \<and> snd (register e d b) = d"
    if "reg_email b = Some m" "\<not> regex_test emailRegex m"
    using that
    by (simp add: register_def register_check_def register_validation_def falsy_def
        str_of_def reply_def split: option.splits)
  have ok_u: "fst (register e d b) \<noteq> reply 400 (ErrorBody msg_username_short)"
    if "reg_username b = Some u" "3 \<le> length u"
    using that register_responses [of e d b] messages_distinct
    by (auto simp: str_of_def reply_def)
  have ok_p: "fst (register e d b) \<noteq> reply 400 (ErrorBody msg_password_short)"
    if "reg_password b = Some p" "8 \<le> length p"
    using that register_responses [of e d b] messages_distinct
    by (auto simp: str_of_def reply_def)
  have pass: "register_validation b = None"
    if "reg_username b = Some u" "3 \<le> length u" "reg_password b = Some p" "8 \<le> length p"
      "reg_email b = Some m" "regex_test emailRegex m"
    using that emailRegex_not_empty [of m]
    by (auto simp: register_validation_def falsy_def str_of_def)
  have down: "register e d b = (reply 500 (ErrorBody msg_register_failed), d)"
    if "reg_username b = Some u" "3 \<le> length u" "reg_password b = Some p" "8 \<le> length p"
      "reg_email b = Some m" "regex_test emailRegex m" "\<not> connected d"
    using that pass [OF that(1-6)]
    by (simp add: register_def register_check_def select_existing_def pool_query_def str_of_def)
  have conflict: "register e d b = (reply 409 (ErrorBody msg_conflict), d)"
    if v: "reg_username b = Some u" "3 \<le> length u" "reg_password b = Some p" "8 \<le> length p"
      "reg_email b = Some m" "regex_test emailRegex m" and up: "connected d" and taken: ?taken
  proof -
    from taken have "filter (\<lambda>v. LOWER (username v) = LOWER u \<or> LOWER (email v) = LOWER m)
        (users d) \<noteq> []"
      by (simp add: filter_empty_conv)
    with v up pass [OF v] show ?thesis
      by (simp add: register_def register_check_def select_existing_def pool_query_def str_of_def)
  qed
  have created: "snd (register e d b) = d\<lparr>users := users d @ [?row], next_id := next_id d + 1\<rparr> \<and>
      fst (register e d b) =
        (case generateToken e ?row of
           None \<Rightarrow> reply 500 (ErrorBody msg_register_failed)
         | Some token \<Rightarrow>
             reply 201
               (AuthBody \<lparr>pu_id = next_id d, pu_username = u, pu_email = m,
                          pu_role = ''user''\<rparr> token))"
    if v: "reg_username b = Some u" "3 \<le> length u" "reg_password b = Some p" "8 \<le> length p"
      "reg_email b = Some m" "regex_test emailRegex m" and up: "connected d" and free: "\<not> ?taken"
  proof -
    from free have none: "filter (\<lambda>v. LOWER (username v) = LOWER u \<or> LOWER (email v) = LOWER m)
        (users d) = []"
      by (simp add: filter_empty_conv)
    from free have unique: "\<not> violates_unique (users d) u m"
      by (simp add: violates_unique_def)
    have "register e d b = register_insert e d (u, m, p)"
      using v up pass [OF v] none
      by (simp add: register_def register_check_def select_existing_def pool_query_def str_of_def)
    moreover have "insert_user e d u m (bcrypt_hash e p 10)
        = Inr (?row, d\<lparr>users := users d @ [?row], next_id := next_id d + 1\<rparr>)"
      using up unique by (simp add: insert_user_def Let_def)
    ultimately show ?thesis
      by (simp add: register_insert_def BCRYPT_ROUNDS_def public_def split: option.splits)
  qed
  show ?thesis
    using short_u short_p bad_m ok_u ok_p down conflict created by blast
qed

theorem register_validation_boundaries_witness:
  "status (fst (register demo_env demo_db
      \<lparr>reg_username = Some ''ab'', reg_email = Some ''carol@x.com'', reg_password = Some ''longer12''\<rparr>)) = 400 \<and>
   status (fst (register demo_env demo_db
      \<lparr>reg_username = Some ''abc'', reg_email = Some ''carol@x.com'', reg_password = Some ''short12''\<rparr>)) = 400 \<and>
   status (fst (register demo_env demo_db
      \<lparr>reg_username = Some ''abc'', reg_email = Some ''carol@x.com'', reg_password = Some ''longer12''\<rparr>)) = 201 \<and>
   map username (users (snd (register demo_env demo_db
      \<lparr>reg_username = Some ''abc'', reg_email = Some ''carol@x.com'', reg_password = Some ''longer12''\<rparr>)))
     = [''alice'', ''bob'', ''abc''] \<and>
   register demo_env demo_db
      \<lparr>reg_username = Some ''abc'', reg_email = Some ''ALICE@X.COM'', reg_password = Some ''longer12''\<rparr>
     = (reply 409 (ErrorBody msg_conflict), demo_db)"
proof -
  let ?short_u = "\<lparr>reg_username = Some ''ab'', reg_email = Some ''carol@x.com'',
                   reg_password = Some ''longer12''\<rparr>"
  let ?short_p = "\<lparr>reg_username = Some ''abc'', reg_email = Some ''carol@x.com'',
                   reg_password = Some ''short12''\<rparr>"
  let ?good = "\<lparr>reg_username = Some ''abc'', reg_email = Some ''carol@x.com'',
                reg_password = Some ''longer12''\<rparr>"
  let ?taken = "\<lparr>reg_username = Some ''abc'', reg_email = Some ''ALICE@X.COM'',
                 reg_password = Some ''longer12''\<rparr>"
  let ?row = "\<lparr>user_id = next_id demo_db, username = ''abc'', email = ''carol@x.com'',
               password_hash = bcrypt_hash demo_env ''longer12'' 10, role = ''user'',
               reset_token = None, reset_token_expiry = None, updated_at = now_ms demo_env\<rparr>"
  have lower: "LOWER ''abc'' = ''abc''" "LOWER ''carol@x.com'' = ''carol@x.com''"
    by (simp_all add: LOWER_def lower_char_def)
  have mail: "regex_test emailRegex ''carol@x.com''" "regex_test emailRegex ''ALICE@X.COM''"
    by (simp_all add: email_defs)
  have up: "connected demo_db"
    by (simp add: demo_db_def)
  have free: "\<not> (\<exists>v \<in> set (users demo_db).
      LOWER (username v) = LOWER ''abc'' \<or> LOWER (email v) = LOWER ''carol@x.com'')"
    by (simp add: demo_db_def alice_def bob_def lower lower_eval)
  have taken: "\<exists>v \<in> set (users demo_db).
      LOWER (username v) = LOWER ''abc'' \<or> LOWER (email v) = LOWER ''ALICE@X.COM''"
    by (simp add: demo_db_def alice_def bob_def lower lower_eval)
  have token: "generateToken demo_env ?row \<noteq> None"
    by (simp add: generateToken_def demo_env_def falsy_def codec_sign_def codec_span_def)
  have a: "status (fst (register demo_env demo_db ?short_u)) = 400"
    using register_validation_boundaries [of ?short_u "''ab''" demo_env demo_db "''longer12''"
        "''carol@x.com''"]
    by simp
  have b: "status (fst (register demo_env demo_db ?short_p)) = 400"
    using register_validation_boundaries [of ?short_p "''abc''" demo_env demo_db "''short12''"
        "''carol@x.com''"]
    by simp
  note good = register_validation_boundaries [of ?good "''abc''" demo_env demo_db "''longer12''"
        "''carol@x.com''"]
  from good mail up free
  have stored: "snd (register demo_env demo_db ?good)
      = demo_db\<lparr>users := users demo_db @ [?row], next_id := next_id demo_db + 1\<rparr>"
    and sent: "fst (register demo_env demo_db ?good) =
        (case generateToken demo_env ?row of
           None \<Rightarrow> reply 500 (ErrorBody msg_register_failed)
         | Some token \<Rightarrow>
             reply 201
               (AuthBody \<lparr>pu_id = next_id demo_db, pu_username = ''abc'', pu_email = ''carol@x.com'',
                          pu_role = ''user''\<rparr> token))"
    by simp_all
  from sent token have c: "status (fst (register demo_env demo_db ?good)) = 201"
    by (auto simp: reply_def split: option.splits)
  from stored have d: "map username (users (snd (register demo_env demo_db ?good)))
      = [''alice'', ''bob'', ''abc'']"
    by (simp add: demo_db_def alice_def bob_def)
  have e: "register demo_env demo_db ?taken = (reply 409 (ErrorBody msg_conflict), demo_db)"
    using register_validation_boundaries [of ?taken "''abc''" demo_env demo_db "''longer12''"
        "''ALICE@X.COM''"] mail up taken
    by simp
  from a b c d e show ?thesis by simp
qed

text \<open>
  The check before the insert: with a valid body and the database reachable, a user
  whose username or e-mail equals the requested one in lower case makes the response
  409, and nothing is inserted.
\<close>

lemma register_conflict_before_insert:
  assumes "register_validation b = None" and "connected d"
    and "\<exists>u \<in> set (users d).
           LOWER (username u) = LOWER (str_of (reg_username b)) \<or>
           LOWER (email u) = LOWER (str_of (reg_email b))"
  shows "register e d b = (reply 409 (ErrorBody msg_conflict), d)"
proof -
  from assms(3) have "filter (\<lambda>u. LOWER (username u) = LOWER (str_of (reg_username b)) \<or>
           LOWER (email u) = LOWER (str_of (reg_email b))) (users d) \<noteq> []"
    by (simp add: filter_empty_conv)
  with assms(1,2) show ?thesis
    by (simp add: register_def register_check_def select_existing_def pool_query_def)
qed

section \<open>Login\<close>

text \<open>
  Claim C5. Login takes one login field and compares it in lower case with both the
  username and the e-mail of every user. When no user matches, and when the password
  does not verify against the hash of the matching user, the response is the same:
  401 with one message. Only a verified password leaves that response.
\<close>

theorem login_failure_uniform:
  assumes "login_login b = Some l" and "l \<noteq> []"
    and "login_password b = Some pw" and "pw \<noteq> []"
    and "connected d"
  shows "case filter (\<lambda>u. LOWER (username u) = LOWER l \<or> LOWER (email u) = LOWER l) (users d) of
           [] \<Rightarrow> login e d b = reply 401 (ErrorBody msg_bad_credentials)
         | u # rest \<Rightarrow>
             (\<not> bcrypt_compare e pw (password_hash u) \<longrightarrow>
                login e d b = reply 401 (ErrorBody msg_bad_credentials)) \<and>
             (bcrypt_compare e pw (password_hash u) \<longrightarrow> status (login e d b) \<noteq> 401)"
  using assms
  by (auto simp: login_def falsy_def str_of_def select_by_login_def pool_query_def reply_def
      split: list.splits option.splits)

theorem login_failure_uniform_witness:
  "login demo_env demo_db \<lparr>login_login = Some ''nobody'', login_password = Some ''password1''\<rparr>
     = reply 401 (ErrorBody msg_bad_credentials) \<and>
   login demo_env demo_db \<lparr>login_login = Some ''ALICE@X.COM'', login_password = Some ''wrong''\<rparr>
     = reply 401 (ErrorBody msg_bad_credentials)"
  using login_failure_uniform [of "\<lparr>login_login = Some ''nobody'', login_password = Some ''password1''\<rparr>"
      "''nobody''" "''password1''" demo_db demo_env]
    login_failure_uniform [of "\<lparr>login_login = Some ''ALICE@X.COM'', login_password = Some ''wrong''\<rparr>"
      "''ALICE@X.COM''" "''wrong''" demo_db demo_env]
  by (simp add: demo_db_def alice_def bob_def lower_eval demo_env_def demo_compare_def)

section \<open>Forgotten password\<close>

text \<open>
  When the database is reachable and the transporter accepts every e-mail, a request
  with an e-mail address is answered with the generic message, registered or not.
\<close>

lemma forgot_password_generic_when_delivered:
  assumes "mail = Some m" "m \<noteq> []" "connected d" "\<forall>x. send_mail e x"
  shows "fst (forgot_password e d mail) = reply 200 (MessageBody msg_forgot_generic)"
  using assms
  by (auto simp: forgot_password_def falsy_def str_of_def select_by_email_def pool_query_def
      update_reset_token_def Let_def split: list.splits)

text \<open>
  Claim C6, at a failing input. When the transporter rejects the e-mail, the request
  for a registered address is answered 500, and the same request for an address that
  is not registered is answered with the generic 200: the two responses differ.
\<close>

theorem forgot_password_mail_failure:
  "fst (forgot_password (demo_env\<lparr>send_mail := smtp_down\<rparr>) demo_db (Some ''alice@x.com''))
     = reply 500 (ErrorBody msg_mail_failed) \<and>
   fst (forgot_password (demo_env\<lparr>send_mail := smtp_down\<rparr>) demo_db (Some ''nobody@x.com''))
     = reply 200 (MessageBody msg_forgot_generic)"
  by (simp add: forgot_password_def falsy_def str_of_def select_by_email_def pool_query_def
      demo_db_def alice_def bob_def lower_eval update_reset_token_def demo_env_def smtp_down_def)

section \<open>Rate limiting\<close>

lemma failed_request_counted:
  assumes "400 \<le> status handled"
  shows "snd (auth_mount st client now handled) = count_hit authLimiter st client now"
  using assms by (simp add: auth_mount_def rate_limit_def)

lemma count_hit_live:
  assumes "st client = Some w" "now < window_start w + windowMs opts"
  shows "count_hit opts st client now client = Some (w\<lparr>window_hits := window_hits w + 1\<rparr>)"
  using assms by (simp add: count_hit_def live_window_def)

lemma serve_failed_in_window:
  assumes "st client = Some w"
    and "\<forall>(now, handled) \<in> set attempts.
           now < window_start w + windowMs authLimiter \<and> 400 \<le> status handled"
  shows "serve st client attempts client
           = Some (w\<lparr>window_hits := window_hits w + length attempts\<rparr>)"
  using assms
proof (induction attempts arbitrary: st w)
  case Nil
  then show ?case by simp
next
  case (Cons a attempts)
  obtain now handled where a: "a = (now, handled)" by (cases a)
  from Cons.prems a have now: "now < window_start w + windowMs authLimiter"
    and bad: "400 \<le> status handled"
    by auto
  let ?st = "snd (auth_mount st client now handled)"
  let ?w = "w\<lparr>window_hits := window_hits w + 1\<rparr>"
  have st': "?st client = Some ?w"
    using failed_request_counted [OF bad, of st client now]
      count_hit_live [of st client w now authLimiter] Cons.prems(1) now by simp
  have later: "\<forall>(now, handled) \<in> set attempts.
           now < window_start ?w + windowMs authLimiter \<and> 400 \<le> status handled"
    using Cons.prems(2) by auto
  have "serve ?st client attempts client
          = Some (?w\<lparr>window_hits := window_hits ?w + length attempts\<rparr>)"
    using Cons.IH [of ?st ?w] st' later by blast
  then show ?case
    by (simp add: a)
qed

text \<open>
  Claim C8. Behind the limiter of \<open>/auth\<close> (a window of 15 minutes, at most 5), for a
  client with no open window: after five failed attempts, the first of which opens the
  window and the others fall inside it, a sixth attempt inside the window is rejected
  with 429 and the message of the limiter, whatever the router would have answered;
  and a successful response below the limit is passed on with the store unchanged, so
  a successful login is not counted.
\<close>

theorem auth_limiter_sixth_attempt:
  assumes fresh: "live_window authLimiter st client t1 = None"
    and first: "400 \<le> status r1"
    and four: "length rest = 4"
    and rest: "\<forall>(now, handled) \<in> set rest.
                 now < t1 + 15 * 60 * 1000 \<and> 400 \<le> status handled"
    and sixth: "t6 < t1 + 15 * 60 * 1000"
  shows "fst (auth_mount (serve st client ((t1, r1) # rest)) client t6 r6)
           = reply 429 (ErrorBody (limit_message authLimiter)) \<and>
         (\<forall>st' now handled. status handled < 400 \<and>
             hits_in_window authLimiter st' client now < 5 \<longrightarrow>
             auth_mount st' client now handled = (handled, st'))"
proof -
  let ?w = "\<lparr>window_start = t1, window_hits = 1\<rparr>"
  let ?st1 = "snd (auth_mount st client t1 r1)"
  have w: "windowMs authLimiter = 15 * 60 * 1000"
    by (simp add: authLimiter_def)
  have opened: "?st1 client = Some ?w"
    using failed_request_counted [OF first, of st client t1] fresh
    by (simp add: count_hit_def)
  have later: "\<forall>(now, handled) \<in> set rest.
                 now < window_start ?w + windowMs authLimiter \<and> 400 \<le> status handled"
    using rest by (simp add: w)
  have "serve ?st1 client rest client
      = Some (?w\<lparr>window_hits := window_hits ?w + length rest\<rparr>)"
    using serve_failed_in_window [of ?st1 client ?w rest] opened later by blast
  then have "serve st client ((t1, r1) # rest) client
      = Some \<lparr>window_start = t1, window_hits = 5\<rparr>"
    by (simp add: four)
  then have "hits_in_window authLimiter (serve st client ((t1, r1) # rest)) client t6 = 5"
    using sixth by (simp add: hits_in_window_def live_window_def w)
  then have limited: "fst (auth_mount (serve st client ((t1, r1) # rest)) client t6 r6)
           = reply 429 (ErrorBody (limit_message authLimiter))"
    by (simp add: auth_mount_def rate_limit_def authLimiter_def)
  have skipped: "\<forall>st' now handled. status handled < 400 \<and>
             hits_in_window authLimiter st' client now < 5 \<longrightarrow>
             auth_mount st' client now handled = (handled, st')"
    by (simp add: auth_mount_def rate_limit_def authLimiter_def)
  from limited skipped show ?thesis by blast
qed

theorem auth_limiter_sixth_attempt_witness:
  "fst (auth_mount
          (serve Map.empty ''10.0.0.7''
             [(0, login demo_env demo_db
                    \<lparr>login_login = Some ''nobody'', login_password = Some ''password1''\<rparr>),
              (1000, reply 401 (ErrorBody msg_bad_credentials)),
              (2000, reply 401 (ErrorBody msg_bad_credentials)),
              (3000, reply 401 (ErrorBody msg_bad_credentials)),
              (4000, reply 401 (ErrorBody msg_bad_credentials))])
          ''10.0.0.7'' 5000 (reply 200 (MessageBody ''ok'')))
     = reply 429 (ErrorBody (limit_message authLimiter)) \<and>
   auth_mount Map.empty ''10.0.0.7'' 0 (reply 200 (MessageBody ''ok''))
     = (reply 200 (MessageBody ''ok''), Map.empty)"
proof -
  let ?bad = "reply 401 (ErrorBody msg_bad_credentials)"
  let ?rest = "[(1000::int, ?bad), (2000, ?bad), (3000, ?bad), (4000, ?bad)]"
  have fresh: "live_window authLimiter Map.empty ''10.0.0.7'' 0 = None"
    by (simp add: live_window_def)
  have first: "400 \<le> status (login demo_env demo_db
      \<lparr>login_login = Some ''nobody'', login_password = Some ''password1''\<rparr>)"
    by (simp add: demo_login_nobody reply_def)
  have four: "length ?rest = 4" by simp
  have rest: "\<forall>(now, handled) \<in> set ?rest. now < 0 + 15 * 60 * 1000 \<and> 400 \<le> status handled"
    by (simp add: reply_def)
  have sixth: "(5000::int) < 0 + 15 * 60 * 1000" by simp
  have none: "hits_in_window authLimiter Map.empty ''10.0.0.7'' 0 < 5"
    by (simp add: hits_in_window_def live_window_def)
  have ok: "status (reply 200 (MessageBody ''ok'')) < 400"
    by (simp add: reply_def)
  from auth_limiter_sixth_attempt [OF fresh first four rest sixth,
      of "reply 200 (MessageBody ''ok'')"] none ok
  show ?thesis by blast
qed

section \<open>User management\<close>

text \<open>
  What the two guards do cover. For a request that passes the gate of \<open>/users\<close> (an
  authenticated admin) and an id parameter that \<open>parseInt\<close> reads as the requester's
  own id: \<open>PATCH\<close> with any role other than \<open>admin\<close> is answered 400 and the table is
  unchanged, and \<open>DELETE\<close> is answered 400 with the own-account message and the table
  is unchanged.
\<close>

theorem users_self_guards:
  assumes "admin_gate e req = Next req'" and "req_user req' = Some c"
    and "strict_eq (parseInt ident) (c_id c)"
  shows "(new_role \<noteq> Some ''admin'' \<longrightarrow>
            status (fst (route_users_patch e d req ident new_role)) = 400 \<and>
            snd (route_users_patch e d req ident new_role) = d) \<and>
         route_users_delete e d req ident = (reply 400 (ErrorBody msg_own_account), d)"
  using assms
  by (auto simp: route_users_patch_def route_users_delete_def users_patch_def users_delete_def
      falsy_def str_of_def reply_def split: option.splits)

theorem users_self_guards_witness:
  "status (fst (route_users_patch demo_env demo_db alice_request ''1'' (Some ''user''))) = 400 \<and>
   snd (route_users_patch demo_env demo_db alice_request ''1'' (Some ''user'')) = demo_db \<and>
   route_users_delete demo_env demo_db alice_request ''1''
     = (reply 400 (ErrorBody msg_own_account), demo_db)"
  using users_self_guards [OF demo_gate_alice, of alice_claims "''1''" "Some ''user''" demo_db]
  by (simp add: parseInt_1 alice_claims_def)

text \<open>
  The guard covers these two routes only: through \<open>POST /users/:id/reset-password\<close>
  an admin replaces the password hash of their own account.
\<close>

theorem users_reset_password_on_own_account:
  "admin_gate demo_env alice_request = Next (alice_request\<lparr>req_user := Some alice_claims\<rparr>) \<and>
   strict_eq (parseInt ''1'') (c_id alice_claims) \<and>
   route_users_reset_password demo_env demo_db alice_request ''1'' (Some ''newpassword'')
     = (reply 200 (MessageBody msg_admin_reset_done),
        demo_db\<lparr>users := [alice\<lparr>password_hash := ''$2b$newpassword'', updated_at := 5000\<rparr>, bob]\<rparr>) \<and>
   password_hash alice \<noteq> ''$2b$newpassword''"
proof -
  have route: "route_users_reset_password demo_env demo_db alice_request ''1'' (Some ''newpassword'')
      = users_reset_password demo_env demo_db (alice_request\<lparr>req_user := Some alice_claims\<rparr>)
          ''1'' (Some ''newpassword'')"
    by (simp add: route_users_reset_password_def demo_gate_alice)
  have handler: "users_reset_password demo_env demo_db (alice_request\<lparr>req_user := Some alice_claims\<rparr>)
          ''1'' (Some ''newpassword'')
     = (reply 200 (MessageBody msg_admin_reset_done),
        demo_db\<lparr>users := [alice\<lparr>password_hash := ''$2b$newpassword'', updated_at := 5000\<rparr>, bob]\<rparr>)"
    by (simp add: users_reset_password_def falsy_def str_of_def with_id_param_def demo_db_def
        demo_env_def pg_decimal_1 update_where_def alice_def bob_def demo_hash_def)
  have own: "strict_eq (parseInt ''1'') (c_id alice_claims)"
    by (simp add: parseInt_1 alice_claims_def)
  have changed: "password_hash alice \<noteq> ''$2b$newpassword''"
    by (simp add: alice_def)
  from demo_gate_alice own route handler changed show ?thesis
    by simp
qed

lemma pg16_gate_alice:
  "admin_gate pg16_env alice_request = Next (alice_request\<lparr>req_user := Some alice_claims\<rparr>)"
proof -
  have "codec_verify (codec_token ''s3cret'' alice_claims) ''s3cret'' 5 = Decoded alice_claims"
    by (rule codec_verify_token) (simp add: alice_claims_def)
  then have "authenticateToken pg16_env alice_request
      = Next (alice_request\<lparr>req_user := Some alice_claims\<rparr>)"
    by (simp add: authenticateToken_def alice_request_def bearer_token_bearer
        codec_token_no_space codec_token_not_empty falsy_def str_of_def pg16_env_def
        demo_env_def now_s_def)
  then show ?thesis
    by (simp add: admin_gate_def requireAdmin_def alice_claims_def)
qed

lemma pg16_reads:
  "pg16_int ''0b1'' = Some 1" "pg16_int ''0o1'' = Some 1"
  by (simp_all add: pg16_int_def prefixed_def in_radix_def digit_of_def is_digit_def code_def)

lemma parseInt_prefixed:
  "parseInt ''0b1'' = Num 0" "parseInt ''0o1'' = Num 0"
  by (simp_all add: parseInt_def is_js_space_def code_def in_radix_def digit_of_def is_digit_def
      is_lower_def is_upper_def)

text \<open>
  Claim C9, at a failing input. The admin \<open>alice\<close>, whose id is 1, sends
  \<open>DELETE /users/0b1\<close> and \<open>PATCH /users/0o1\<close> with the role \<open>user\<close> to a server on
  PostgreSQL 16. \<open>parseInt\<close> reads both parameters as 0, so neither guard answers; the
  database reads both as 1, and the requests delete and demote the requester's own
  account with 200, where the claim asks for 400 and an unchanged record.
\<close>

theorem users_self_guard_bypass:
  "admin_gate pg16_env alice_request = Next (alice_request\<lparr>req_user := Some alice_claims\<rparr>) \<and>
   c_id alice_claims = user_id alice \<and>
   pg_int pg16_env ''0b1'' = Some (user_id alice) \<and>
   pg_int pg16_env ''0o1'' = Some (user_id alice) \<and>
   route_users_delete pg16_env demo_db alice_request ''0b1''
     = (reply 200 (MessageBody msg_user_deleted), demo_db\<lparr>users := [bob]\<rparr>) \<and>
   route_users_patch pg16_env demo_db alice_request ''0o1'' (Some ''user'')
     = (reply 200 (RowBody (public (alice\<lparr>role := ''user''\<rparr>)) 5000),
        demo_db\<lparr>users := [alice\<lparr>role := ''user'', updated_at := 5000\<rparr>, bob]\<rparr>)"
proof -
  have ids: "c_id alice_claims = user_id alice"
    by (simp add: alice_claims_def alice_def)
  have reads: "pg_int pg16_env ''0b1'' = Some (user_id alice)"
    "pg_int pg16_env ''0o1'' = Some (user_id alice)"
    by (simp_all add: pg16_env_def pg16_reads alice_def)
  have clock: "now_ms pg16_env = 5000"
    by (simp add: pg16_env_def demo_env_def)
  have del: "users_delete pg16_env demo_db (alice_request\<lparr>req_user := Some alice_claims\<rparr>) ''0b1''
      = (reply 200 (MessageBody msg_user_deleted), demo_db\<lparr>users := [bob]\<rparr>)"
    using reads(1)
    by (simp add: users_delete_def parseInt_prefixed with_id_param_def)
       (simp add: alice_claims_def demo_db_def alice_def bob_def)
  have patch: "users_patch pg16_env demo_db (alice_request\<lparr>req_user := Some alice_claims\<rparr>)
        ''0o1'' (Some ''user'')
      = (reply 200 (RowBody (public (alice\<lparr>role := ''user''\<rparr>)) 5000),
         demo_db\<lparr>users := [alice\<lparr>role := ''user'', updated_at := 5000\<rparr>, bob]\<rparr>)"
    using reads(2) clock
    by (simp add: users_patch_def parseInt_prefixed with_id_param_def falsy_def str_of_def)
       (simp add: alice_claims_def demo_db_def alice_def bob_def update_where_def str_of_def)
  from pg16_gate_alice ids reads del patch show ?thesis
    by (simp add: route_users_delete_def route_users_patch_def)
qed

section \<open>Change of password\<close>

text \<open>
  Claim C10. The handler of change-password checks the length of the new password
  before it looks at the current one: a new password of fewer than 8 characters is
  answered with 400, whatever the current password and the stored hash are. On every
  error response (400, 401, 404) the database is the one the handler started from.
\<close>

theorem change_password_validates_first:
  "(newPassword b = Some np \<and> length np < 8 \<longrightarrow>
      status (fst (change_password e d req b)) = 400 \<and>
      (authenticateToken e sent = Next req \<longrightarrow>
         status (fst (route_change_password e d sent b)) = 400)) \<and>
   (status (fst (change_password e d req b)) \<in> {400, 401, 404} \<longrightarrow>
      snd (change_password e d req b) = d) \<and>
   (status (fst (route_change_password e d sent b)) \<in> {400, 401, 404} \<longrightarrow>
      snd (route_change_password e d sent b) = d)"
proof -
  have short: "status (fst (change_password e d r b)) = 400"
    if "newPassword b = Some np" "length np < 8" for r
    using that
    by (simp add: change_password_def falsy_def str_of_def reply_def)
  have kept: "snd (change_password e d r b) = d"
    if "status (fst (change_password e d r b)) \<in> {400, 401, 404}" for r
    using that
    by (auto simp: change_password_def falsy_def str_of_def reply_def select_by_id_def
        update_password_def pool_query_def
        split: option.splits sum.splits list.splits if_splits)
  have route_short: "status (fst (route_change_password e d sent b)) = 400"
    if "newPassword b = Some np" "length np < 8" "authenticateToken e sent = Next req"
    using that short [of req] by (simp add: route_change_password_def)
  have route_kept: "snd (route_change_password e d sent b) = d"
    if "status (fst (route_change_password e d sent b)) \<in> {400, 401, 404}"
  proof (cases "authenticateToken e sent")
    case (Reject r)
    then show ?thesis by (simp add: route_change_password_def)
  next
    case (Next r)
    with that kept [of r] show ?thesis by (simp add: route_change_password_def)
  qed
  from short [of req] kept [of req] route_short route_kept show ?thesis
    by blast
qed

theorem change_password_validates_first_witness:
  "status (fst (change_password demo_env demo_db
       \<lparr>authorization = None, req_user = Some alice_claims\<rparr>
       \<lparr>currentPassword = Some ''wrong-password'', newPassword = Some ''short12''\<rparr>)) = 400 \<and>
   route_change_password demo_env demo_db alice_request
       \<lparr>currentPassword = Some ''wrong-password'', newPassword = Some ''short12''\<rparr>
     = (reply 400 (ErrorBody msg_new_password_short), demo_db)"
proof -
  let ?b = "\<lparr>currentPassword = Some ''wrong-password'', newPassword = Some ''short12''\<rparr>"
  note facts = change_password_validates_first
    [of ?b "''short12''" demo_env demo_db "alice_request\<lparr>req_user := Some alice_claims\<rparr>"
      alice_request]
  have short: "newPassword ?b = Some ''short12'' \<and> length ''short12'' < 8"
    by simp
  from facts short demo_auth_alice
  have h: "status (fst (change_password demo_env demo_db
              (alice_request\<lparr>req_user := Some alice_claims\<rparr>) ?b)) = 400"
    and r: "status (fst (route_change_password demo_env demo_db alice_request ?b)) = 400"
    by blast+
  from facts r have kept: "snd (route_change_password demo_env demo_db alice_request ?b) = demo_db"
    by simp
  have body: "fst (route_change_password demo_env demo_db alice_request ?b)
      = reply 400 (ErrorBody msg_new_password_short)"
    by (simp add: route_change_password_def demo_auth_alice change_password_def falsy_def
        str_of_def)
  have direct: "status (fst (change_password demo_env demo_db
       \<lparr>authorization = None, req_user = Some alice_claims\<rparr> ?b)) = 400"
    using change_password_validates_first
      [of ?b "''short12''" demo_env demo_db "\<lparr>authorization = None, req_user = Some alice_claims\<rparr>"]
    by simp
  from direct kept body show ?thesis
    by (simp add: prod_eq_iff)
qed

end
